theory Spec2Isabelle
  imports Main
begin

section \<open>JavaScript values used by the proxy\<close>

text \<open>
  A JavaScript string is a sequence of UTF-16 code units; a code unit is modelled as a
  natural number, and \<open>js ''abc''\<close> is the string with the code units of an ASCII literal.
  Timestamps and counters are JavaScript numbers holding integers far below \<open>2^53\<close>
  (milliseconds since the epoch, a counter that stops at 1000), modelled as \<open>int\<close>.
\<close>

type_synonym jsstring = "nat list"

abbreviation js :: "string \<Rightarrow> jsstring" where
  "js s \<equiv> map of_char s"

text \<open>Errors that the built-ins and the platform raise, as values.\<close>

datatype js_error =
    URIError
  | FetchError jsstring
  | BodySyntaxError jsstring
  | ResponseRangeError
  | ResponseTypeError

text \<open>\<open>x || y\<close> on possibly missing strings: \<open>null\<close>, \<open>undefined\<close> and \<open>''\<close> are falsy.\<close>

fun truthy :: "jsstring option \<Rightarrow> bool" where
  "truthy None = False"
| "truthy (Some s) = (s \<noteq> [])"

subsection \<open>String built-ins\<close>

definition startsWith :: "jsstring \<Rightarrow> jsstring \<Rightarrow> bool" where
  "startsWith s p = (take (length p) s = p)"

text \<open>
  \<open>s.replace(pat, rep)\<close> with a string pattern: only the first occurrence is replaced. The
  proxy replaces by the empty string, so the \<open>$\<close> patterns of a replacement do not arise.
\<close>

fun replace :: "jsstring \<Rightarrow> jsstring \<Rightarrow> jsstring \<Rightarrow> jsstring" where
  "replace [] pat rep = (if pat = [] then rep else [])"
| "replace (c # cs) pat rep =
     (if startsWith (c # cs) pat then rep @ drop (length pat) (c # cs)
      else c # replace cs pat rep)"

text \<open>\<open>s.split(sep)\<close> for a one-character separator; the result is never empty.\<close>

fun split :: "jsstring \<Rightarrow> nat \<Rightarrow> jsstring list" where
  "split [] sep = [[]]"
| "split (c # cs) sep =
     (if c = sep then [] # split cs sep
      else (case split cs sep of [] \<Rightarrow> [[c]] | p # ps \<Rightarrow> (c # p) # ps))"

text \<open>\<open>parts[0]\<close> and \<open>parts[2]\<close>: an index out of range reads \<open>undefined\<close>.\<close>

fun at_index :: "'a list \<Rightarrow> nat \<Rightarrow> 'a option" where
  "at_index [] i = None"
| "at_index (x # xs) 0 = Some x"
| "at_index (x # xs) (Suc i) = at_index xs i"

definition white_space :: "nat \<Rightarrow> bool" where
  "white_space c \<longleftrightarrow>
     c \<in> {9, 10, 11, 12, 13, 32, 160, 5760, 8232, 8233, 8239, 8287, 12288, 65279}
     \<or> (8192 \<le> c \<and> c \<le> 8202)"

definition trim :: "jsstring \<Rightarrow> jsstring" where
  "trim s = rev (dropWhile white_space (rev (dropWhile white_space s)))"

text \<open>\<open>n.toString()\<close> for an integer-valued number of magnitude below \<open>10^21\<close>.\<close>

fun digits :: "nat \<Rightarrow> jsstring" where
  "digits n = (if n < 10 then [48 + n] else digits (n div 10) @ [48 + n mod 10])"

declare digits.simps [simp del]

definition toString :: "int \<Rightarrow> jsstring" where
  "toString n = (if n < 0 then 45 # digits (nat (- n)) else digits (nat n))"

text \<open>\<open>Math.ceil(x / 1000)\<close> for an integer \<open>x\<close>.\<close>

definition ceil_div_1000 :: "int \<Rightarrow> int" where
  "ceil_div_1000 x = - ((- x) div 1000)"

subsection \<open>\<open>decodeURIComponent\<close> and \<open>encodeURIComponent\<close>\<close>

fun hex_digit :: "nat \<Rightarrow> nat option" where
  "hex_digit c =
     (if 48 \<le> c \<and> c \<le> 57 then Some (c - 48)
      else if 65 \<le> c \<and> c \<le> 70 then Some (c - 55)
      else if 97 \<le> c \<and> c \<le> 102 then Some (c - 87)
      else None)"

text \<open>An escape \<open>%XX\<close> at the front of the string: its octet and the rest of the string.\<close>

fun escape_octet :: "jsstring \<Rightarrow> (nat \<times> jsstring) option" where
  "escape_octet (p # h # l # rest) =
     (if p = 37 then
        (case hex_digit h of None \<Rightarrow> None
         | Some a \<Rightarrow> (case hex_digit l of None \<Rightarrow> None | Some b \<Rightarrow> Some (16 * a + b, rest)))
      else None)"
| "escape_octet s = None"

fun continuation_octets :: "nat \<Rightarrow> jsstring \<Rightarrow> (nat list \<times> jsstring) option" where
  "continuation_octets 0 s = Some ([], s)"
| "continuation_octets (Suc k) s =
     (case escape_octet s of None \<Rightarrow> None
      | Some (b, r) \<Rightarrow>
          (case continuation_octets k r of None \<Rightarrow> None
           | Some (bs, r') \<Rightarrow> Some (b # bs, r')))"

text \<open>The number of leading one bits of an octet; 5 stands for "more than four".\<close>

definition leading_ones :: "nat \<Rightarrow> nat" where
  "leading_ones b =
     (if b < 128 then 0 else if b < 192 then 1 else if b < 224 then 2
      else if b < 240 then 3 else if b < 248 then 4 else 5)"

definition continuation :: "nat \<Rightarrow> bool" where
  "continuation b \<longleftrightarrow> 128 \<le> b \<and> b < 192"

text \<open>The code point of a well-formed UTF-8 sequence of two to four octets.\<close>

fun utf8_code_point :: "nat list \<Rightarrow> nat option" where
  "utf8_code_point [b0, b1] =
     (let v = (b0 - 192) * 64 + (b1 - 128)
      in if continuation b1 \<and> 128 \<le> v then Some v else None)"
| "utf8_code_point [b0, b1, b2] =
     (let v = (b0 - 224) * 4096 + (b1 - 128) * 64 + (b2 - 128)
      in if continuation b1 \<and> continuation b2 \<and> 2048 \<le> v \<and> \<not> (55296 \<le> v \<and> v \<le> 57343)
         then Some v else None)"
| "utf8_code_point [b0, b1, b2, b3] =
     (let v = (b0 - 240) * 262144 + (b1 - 128) * 4096 + (b2 - 128) * 64 + (b3 - 128)
      in if continuation b1 \<and> continuation b2 \<and> continuation b3 \<and> 65536 \<le> v \<and> v \<le> 1114111
         then Some v else None)"
| "utf8_code_point bs = None"

definition utf16_encode :: "nat \<Rightarrow> jsstring" where
  "utf16_encode v =
     (if v < 65536 then [v]
      else [55296 + (v - 65536) div 1024, 56320 + (v - 65536) mod 1024])"

lemma escape_octet_shorter: "escape_octet s = Some (b, r) \<Longrightarrow> length r < length s"
  by (induction s rule: escape_octet.induct) (auto split: if_splits option.splits)

lemma continuation_octets_shorter:
  "continuation_octets k s = Some (bs, r) \<Longrightarrow> length r \<le> length s"
proof (induction k arbitrary: s bs r)
  case 0
  then show ?case by simp
next
  case (Suc k)
  then show ?case
    by (fastforce split: option.splits dest: escape_octet_shorter)
qed

function decodeURIComponent :: "jsstring \<Rightarrow> js_error + jsstring" where
  "decodeURIComponent [] = Inr []"
| "decodeURIComponent (c # cs) =
     (if c \<noteq> 37 then
        (case decodeURIComponent cs of Inl e \<Rightarrow> Inl e | Inr r \<Rightarrow> Inr (c # r))
      else
        (case escape_octet (c # cs) of
           None \<Rightarrow> Inl URIError
         | Some (b, rest) \<Rightarrow>
             if leading_ones b = 0 then
               (case decodeURIComponent rest of Inl e \<Rightarrow> Inl e | Inr r \<Rightarrow> Inr (b # r))
             else if leading_ones b = 1 \<or> 4 < leading_ones b then Inl URIError
             else
               (case continuation_octets (leading_ones b - 1) rest of
                  None \<Rightarrow> Inl URIError
                | Some (bs, rest') \<Rightarrow>
                    (case utf8_code_point (b # bs) of
                       None \<Rightarrow> Inl URIError
                     | Some v \<Rightarrow>
                         (case decodeURIComponent rest' of
                            Inl e \<Rightarrow> Inl e
                          | Inr r \<Rightarrow> Inr (utf16_encode v @ r))))))"
  by pat_completeness auto
termination
proof (relation "measure length")
  show "wf (measure length)" by simp
next
  fix c :: nat and cs :: jsstring
  show "(cs, c # cs) \<in> measure length" by simp
next
  fix c :: nat and cs rest :: jsstring and x2 :: "nat \<times> jsstring" and b :: nat
  assume "escape_octet (c # cs) = Some x2" "(b, rest) = x2"
  then show "(rest, c # cs) \<in> measure length"
    using escape_octet_shorter [of "c # cs" b rest] by simp
next
  fix c :: nat and cs rest rest' :: jsstring and x2 :: "nat \<times> jsstring" and b :: nat
    and x2a :: "nat list \<times> jsstring" and bs :: "nat list"
  assume "escape_octet (c # cs) = Some x2" "(b, rest) = x2"
    "continuation_octets (leading_ones b - 1) rest = Some x2a" "(bs, rest') = x2a"
  then show "(rest', c # cs) \<in> measure length"
    using escape_octet_shorter [of "c # cs" b rest]
      continuation_octets_shorter [of "leading_ones b - 1" rest bs rest'] by simp
qed

declare decodeURIComponent.simps [simp del]

definition unreserved :: "nat \<Rightarrow> bool" where
  "unreserved c \<longleftrightarrow>
     (65 \<le> c \<and> c \<le> 90) \<or> (97 \<le> c \<and> c \<le> 122) \<or> (48 \<le> c \<and> c \<le> 57)
     \<or> c \<in> {45, 95, 46, 33, 126, 42, 39, 40, 41}"

definition hex_char :: "nat \<Rightarrow> nat" where
  "hex_char d = (if d < 10 then 48 + d else 55 + d)"

definition percent :: "nat \<Rightarrow> jsstring" where
  "percent b = [37, hex_char (b div 16), hex_char (b mod 16)]"

definition utf8_encode :: "nat \<Rightarrow> nat list" where
  "utf8_encode v =
     (if v < 128 then [v]
      else if v < 2048 then [192 + v div 64, 128 + v mod 64]
      else if v < 65536 then [224 + v div 4096, 128 + (v div 64) mod 64, 128 + v mod 64]
      else [240 + v div 262144, 128 + (v div 4096) mod 64, 128 + (v div 64) mod 64,
            128 + v mod 64])"

definition high_surrogate :: "nat \<Rightarrow> bool" where
  "high_surrogate c \<longleftrightarrow> 55296 \<le> c \<and> c \<le> 56319"

definition low_surrogate :: "nat \<Rightarrow> bool" where
  "low_surrogate c \<longleftrightarrow> 56320 \<le> c \<and> c \<le> 57343"

fun encodeURIComponent :: "jsstring \<Rightarrow> js_error + jsstring" where
  "encodeURIComponent [] = Inr []"
| "encodeURIComponent (c # cs) =
     (if unreserved c then
        (case encodeURIComponent cs of Inl e \<Rightarrow> Inl e | Inr r \<Rightarrow> Inr (c # r))
      else if low_surrogate c then Inl URIError
      else if high_surrogate c then
        (case cs of
           [] \<Rightarrow> Inl URIError
         | d # ds \<Rightarrow>
             if low_surrogate d then
               (case encodeURIComponent ds of
                  Inl e \<Rightarrow> Inl e
                | Inr r \<Rightarrow>
                    Inr (concat (map percent
                           (utf8_encode ((c - 55296) * 1024 + (d - 56320) + 65536))) @ r))
             else Inl URIError)
      else
        (case encodeURIComponent cs of
           Inl e \<Rightarrow> Inl e
         | Inr r \<Rightarrow> Inr (concat (map percent (utf8_encode c)) @ r)))"

declare encodeURIComponent.simps [simp del]

section \<open>The platform: requests, responses, the clock and \<open>fetch\<close>\<close>

text \<open>
  The payload of a JSON body is never inspected by the proxy, so its type is a parameter
  \<open>'j\<close>. The objects that the proxy itself serialises with \<open>JSON.stringify\<close> are
  association lists of fields; \<open>JMessageOf e\<close> is \<open>e.message\<close> of a caught error.
\<close>

datatype jval = JString jsstring | JNumber int | JMessageOf js_error

datatype 'j body =
    NullBody
  | JsonObject "(jsstring \<times> jval) list"
  | JsonValue 'j
  | Text jsstring

text \<open>
  The inbound request and its URL: \<open>header\<close> is \<open>request.headers.get\<close>, \<open>searchParams\<close> the
  entries of \<open>url.searchParams\<close> in order, \<open>body_text\<close> and \<open>body_json\<close> what \<open>request.text()\<close> and
  \<open>request.json()\<close> resolve to (\<open>None\<close> when they throw).
\<close>

record 'j request =
  req_method :: jsstring
  header :: "jsstring \<rightharpoonup> jsstring"
  pathname :: jsstring
  search :: jsstring
  searchParams :: "(jsstring \<times> jsstring) list"
  body_text :: "jsstring option"
  body_json :: "'j option"

record 'j response =
  status :: nat
  headers :: "(jsstring \<times> jsstring) list"
  body :: "'j body"

text \<open>
  \<open>new Response(body, {status, headers})\<close> throws a RangeError for a status outside
  200..599 and a TypeError for a body on a null-body status.
\<close>

definition Response :: "'j body \<Rightarrow> nat \<Rightarrow> (jsstring \<times> jsstring) list \<Rightarrow> js_error + 'j response" where
  "Response b st hs =
     (if st < 200 \<or> 599 < st then Inl ResponseRangeError
      else if b \<noteq> NullBody \<and> st \<in> {204, 205, 304} then Inl ResponseTypeError
      else Inr \<lparr>status = st, headers = hs, body = b\<rparr>)"

text \<open>
  The outbound call \<open>fetch(url, fetchOptions)\<close>. In the query-parameter variant the URL is
  a \<open>URL\<close> object: \<open>url\<close> is the string it was parsed from and \<open>set_calls\<close> the calls
  \<open>airtableUrl.searchParams.set(key, value)\<close> made on it, in order. What is fetched is the
  serialisation of that object; its path is \<open>fetched_pathname\<close> below.
\<close>

datatype 'j fetch_body = NoBody | TextBody jsstring | JsonBody 'j

text \<open>
  Where the URL parser starts the query of an \<open>https\<close> URL string: after the first \<open>?\<close>, unless
  a \<open>#\<close> comes before it, and up to the next \<open>#\<close>. For a string without tabs and line breaks
  this is the text from which the parser builds the query component of the \<open>URL\<close> object.
\<close>

fun raw_query :: "jsstring \<Rightarrow> jsstring option" where
  "raw_query [] = None"
| "raw_query (c # cs) =
     (if c = 35 then None
      else if c = 63 then Some (takeWhile (\<lambda>x. x \<noteq> 35) cs)
      else raw_query cs)"

record 'j fetch_call =
  url :: jsstring
  set_calls :: "(jsstring \<times> jsstring) list"
  options_method :: jsstring
  options_headers :: "(jsstring \<times> jsstring) list"
  options_body :: "'j fetch_body"

subsection \<open>The path of a parsed \<open>URL\<close>\<close>












text \<open>
  What the upstream answers: \<open>fetch\<close> rejects with an error message, or resolves to a
  response whose \<open>text()\<close> and \<open>json()\<close> yield a value or reject with a message.
\<close>

record 'j upstream_response =
  upstream_status :: nat
  upstream_text :: "jsstring + jsstring"
  upstream_json :: "jsstring + 'j"

datatype 'j fetch_result = Rejected jsstring | Resolved "'j upstream_response"

text \<open>
  The handler's \<open>context\<close>: the request, \<open>env.AIRTABLE_TOKEN\<close>, and the two collaborators it
  calls, the clock (\<open>Date_now k\<close> is what call number \<open>k\<close> of \<open>Date.now()\<close> during the
  request returns, counting from 0) and the network.
\<close>

record 'j event_context =
  request :: "'j request"
  AIRTABLE_TOKEN :: "jsstring option"
  Date_now :: "nat \<Rightarrow> int"
  fetch :: "'j fetch_call \<Rightarrow> 'j fetch_result"

definition or_default :: "jsstring option \<Rightarrow> jsstring \<Rightarrow> jsstring" where
  "or_default a d = (if truthy a then the a else d)"

definition RATE_LIMIT :: int where
  "RATE_LIMIT = 1000"

definition RATE_WINDOW :: int where
  "RATE_WINDOW = 60 * 1000"

definition json_headers :: "(jsstring \<times> jsstring) list" where
  "json_headers = [(js ''Content-Type'', js ''application/json'')]"

section \<open>Query-parameter variant: \<open>functions/api/airtable.js\<close>\<close>

definition ALLOWED_ORIGINS_B :: "jsstring list" where
  "ALLOWED_ORIGINS_B =
     [js ''https://prioai.ca'', js ''https://www.prioai.ca'', js ''https://dashboard.prioai.ca'',
      js ''http://localhost:3000'', js ''http://localhost:8788'',
      js ''http://127.0.0.1:3000'', js ''http://127.0.0.1:8788'']"

definition ALLOWED_BASE :: jsstring where
  "ALLOWED_BASE = js ''applOjDjhH0RqLtBH''"

definition ALLOWED_TABLES :: "jsstring list" where
  "ALLOWED_TABLES =
     [js ''Admin%20Settings'', js ''Admin Settings'', js ''Team%20Members'', js ''Team Members'',
      js ''tblMptC862PyL7Znw'', js ''tblvB5OpG0b5mVix3'', js ''tblLpN4wceakfNFpq'']"

datatype validation_B = Invalid_B jsstring | Valid_B

text \<open>
  \<open>validatePath(path)\<close>; \<open>None\<close> is the missing parameter (\<open>null\<close>). A malformed escape in the
  table segment makes \<open>decodeURIComponent\<close> throw, and nothing in the function catches it.
\<close>

definition validatePath_B :: "jsstring option \<Rightarrow> js_error + validation_B" where
  "validatePath_B path =
     (if \<not> truthy path then Inr (Invalid_B (js ''Missing path parameter''))
      else if \<not> startsWith (the path) ALLOWED_BASE then Inr (Invalid_B (js ''Invalid base ID''))
      else
        (let pathParts = split (replace (the path) (ALLOWED_BASE @ js ''/'') []) 47;
             table = at_index pathParts 0
         in if \<not> truthy table then Inr (Invalid_B (js ''Missing table name''))
            else
              (case decodeURIComponent (the table) of
                 Inl e \<Rightarrow> Inl e
               | Inr decodedTable \<Rightarrow>
                   if the table \<notin> set ALLOWED_TABLES \<and> decodedTable \<notin> set ALLOWED_TABLES
                   then Inr (Invalid_B (js ''Table not allowed''))
                   else Inr Valid_B)))"


record rate_record_B =
  windowStart :: int
  count_B :: int

type_synonym store_B = "jsstring \<rightharpoonup> rate_record_B"

text \<open>\<open>checkRateLimit(ip)\<close>: the decision and the map after the call.\<close>

definition checkRateLimit_B :: "store_B \<Rightarrow> jsstring \<Rightarrow> int \<Rightarrow> bool \<times> store_B" where
  "checkRateLimit_B rateLimitMap ip now =
     (case rateLimitMap ip of
        None \<Rightarrow> (True, rateLimitMap(ip \<mapsto> \<lparr>windowStart = now, count_B = 1\<rparr>))
      | Some rec \<Rightarrow>
          if now - windowStart rec > RATE_WINDOW
          then (True, rateLimitMap(ip \<mapsto> \<lparr>windowStart = now, count_B = 1\<rparr>))
          else if count_B rec \<ge> RATE_LIMIT then (False, rateLimitMap)
          else (True, rateLimitMap(ip \<mapsto> rec\<lparr>count_B := count_B rec + 1\<rparr>)))"

definition getCorsHeaders_B :: "jsstring \<Rightarrow> (jsstring \<times> jsstring) list" where
  "getCorsHeaders_B origin =
     [(js ''Access-Control-Allow-Origin'',
         if origin \<in> set ALLOWED_ORIGINS_B then origin else ALLOWED_ORIGINS_B ! 0),
      (js ''Access-Control-Allow-Methods'', js ''GET, POST, PATCH, DELETE, OPTIONS''),
      (js ''Access-Control-Allow-Headers'', js ''Content-Type''),
      (js ''Access-Control-Max-Age'', js ''86400'')]"

definition clientIP_B :: "'j request \<Rightarrow> jsstring" where
  "clientIP_B req =
     or_default (header req (js ''CF-Connecting-IP''))
       (or_default (Option.bind (header req (js ''X-Forwarded-For'')) (\<lambda>x. at_index (split x 44) 0))
          (js ''unknown''))"

definition allowedParams :: "jsstring list" where
  "allowedParams =
     [js ''pageSize'', js ''offset'', js ''sort[0][field]'', js ''sort[0][direction]'',
      js ''filterByFormula'', js ''view'']"

definition forwarded :: "jsstring \<times> jsstring \<Rightarrow> bool" where
  "forwarded kv \<longleftrightarrow>
     fst kv \<noteq> js ''path'' \<and> (fst kv \<in> set allowedParams \<or> startsWith (fst kv) (js ''sort[''))"

definition error_B :: "jsstring \<Rightarrow> nat \<Rightarrow> (jsstring \<times> jsstring) list \<Rightarrow> js_error + 'j response" where
  "error_B msg st hs = Response (JsonObject [(js ''error'', JString msg)]) st hs"

text \<open>
  The outbound request that \<open>onRequest\<close> builds for a validated path: the URL parsed from
  the template string, the allow-listed parameters copied with \<open>searchParams.set\<close>, the
  method, the injected headers and, for \<open>POST\<close>, \<open>PATCH\<close> and \<open>PUT\<close>, the non-empty body
  text.
\<close>

definition airtableRequest_B :: "'j event_context \<Rightarrow> jsstring \<Rightarrow> 'j fetch_call" where
  "airtableRequest_B context path =
     (let req = request context in
      \<lparr>url = js ''https://api.airtable.com/v0/'' @ path,
       set_calls = filter forwarded (searchParams req),
       options_method = req_method req,
       options_headers =
         [(js ''Authorization'', js ''Bearer '' @ the (AIRTABLE_TOKEN context)),
          (js ''Content-Type'', js ''application/json'')],
       options_body =
         (if req_method req \<in> {js ''POST'', js ''PATCH'', js ''PUT''} \<and> truthy (body_text req)
          then TextBody (the (body_text req)) else NoBody)\<rparr>)"

text \<open>The \<open>try\<close>/\<open>catch\<close> around \<open>fetch\<close>: relay the upstream answer, or answer 502.\<close>

definition relay_B ::
  "'j event_context \<Rightarrow> (jsstring \<times> jsstring) list \<Rightarrow> 'j fetch_call \<Rightarrow> js_error + 'j response" where
  "relay_B context corsHeaders call =
     (let failed = error_B (js ''Failed to fetch from Airtable'') 502 (corsHeaders @ json_headers)
      in case fetch context call of
           Rejected m \<Rightarrow> failed
         | Resolved r \<Rightarrow>
             (case upstream_text r of
                Inl m \<Rightarrow> failed
              | Inr data \<Rightarrow>
                  (case Response (Text data) (upstream_status r) (corsHeaders @ json_headers) of
                     Inl e \<Rightarrow> failed
                   | Inr resp \<Rightarrow> Inr resp)))"

text \<open>
  \<open>onRequest(context)\<close>: the response (or the error the handler throws), the rate-limit
  map after the request, and the upstream calls made.
\<close>

definition onRequest_B ::
  "'j event_context \<Rightarrow> store_B \<Rightarrow> (js_error + 'j response) \<times> store_B \<times> 'j fetch_call list" where
  "onRequest_B context rateLimitMap =
     (let req = request context;
          origin = or_default (header req (js ''Origin'')) [];
          corsHeaders = getCorsHeaders_B origin
      in
      if req_method req = js ''OPTIONS'' then (Response NullBody 204 corsHeaders, rateLimitMap, [])
      else if req_method req \<noteq> js ''GET'' \<and> origin \<notin> set ALLOWED_ORIGINS_B then
        (error_B (js ''Origin not allowed'') 403 (corsHeaders @ json_headers), rateLimitMap, [])
      else
        (let clientIP = clientIP_B req;
             (allowed, rateLimitMap') = checkRateLimit_B rateLimitMap clientIP (Date_now context 0)
         in
         if \<not> allowed then
           (error_B (js ''Rate limit exceeded. Max 1000 requests per minute.'') 429
              (corsHeaders @ json_headers @ [(js ''Retry-After'', js ''60'')]),
            rateLimitMap', [])
         else if \<not> truthy (AIRTABLE_TOKEN context) then
           (error_B (js ''Server configuration error'') 500 (corsHeaders @ json_headers),
            rateLimitMap', [])
         else
           (let path = map_of (searchParams req) (js ''path'') in
            case validatePath_B path of
              Inl e \<Rightarrow> (Inl e, rateLimitMap', [])
            | Inr (Invalid_B err) \<Rightarrow>
                (error_B err 400 (corsHeaders @ json_headers), rateLimitMap', [])
            | Inr Valid_B \<Rightarrow>
                (let call = airtableRequest_B context (the path)
                 in (relay_B context corsHeaders call, rateLimitMap', [call])))))"

section \<open>Path-segment variant (the second source file)\<close>

definition ALLOWED_PATHS_bases :: "jsstring list" where
  "ALLOWED_PATHS_bases = [js ''appXXXXXXXXXXXXXX'']"

definition ALLOWED_PATHS_tables :: "jsstring list" where
  "ALLOWED_PATHS_tables =
     [js ''Clients'', js ''Calls'', js ''Leads'', js ''Costs'', js ''Revenue'', js ''Settings'']"

definition ALLOWED_ORIGINS_A :: "jsstring list" where
  "ALLOWED_ORIGINS_A =
     [js ''https://prioai.ca'', js ''https://dashboard.prioai.ca'', js ''https://www.prioai.ca'',
      js ''http://localhost:3000'', js ''http://localhost:8788'',
      js ''http://127.0.0.1:3000'', js ''http://127.0.0.1:8788'']"

record rate_record_A =
  count_A :: int
  timestamp :: int

type_synonym store_A = "jsstring \<rightharpoonup> rate_record_A"

record rate_result =
  allowed :: bool
  remaining :: int
  resetAt :: "int option"

definition getRateLimitKey :: "'j request \<Rightarrow> jsstring" where
  "getRateLimitKey req =
     or_default (header req (js ''CF-Connecting-IP''))
       (or_default
          (map_option trim
             (Option.bind (header req (js ''X-Forwarded-For'')) (\<lambda>x. at_index (split x 44) 0)))
          (js ''unknown''))"

definition checkRateLimit_A :: "store_A \<Rightarrow> jsstring \<Rightarrow> int \<Rightarrow> rate_result \<times> store_A" where
  "checkRateLimit_A rateLimitStore ip now =
     (case rateLimitStore ip of
        None \<Rightarrow>
          (\<lparr>allowed = True, remaining = RATE_LIMIT - 1, resetAt = None\<rparr>,
           rateLimitStore(ip \<mapsto> \<lparr>count_A = 1, timestamp = now\<rparr>))
      | Some rec \<Rightarrow>
          if now - timestamp rec > RATE_WINDOW then
            (\<lparr>allowed = True, remaining = RATE_LIMIT - 1, resetAt = None\<rparr>,
             rateLimitStore(ip \<mapsto> \<lparr>count_A = 1, timestamp = now\<rparr>))
          else if count_A rec \<ge> RATE_LIMIT then
            (\<lparr>allowed = False, remaining = 0, resetAt = Some (timestamp rec + RATE_WINDOW)\<rparr>,
             rateLimitStore)
          else
            (\<lparr>allowed = True, remaining = RATE_LIMIT - (count_A rec + 1), resetAt = None\<rparr>,
             rateLimitStore(ip \<mapsto> rec\<lparr>count_A := count_A rec + 1\<rparr>)))"

definition getCorsHeaders_A :: "'j request \<Rightarrow> (jsstring \<times> jsstring) list" where
  "getCorsHeaders_A req =
     [(js ''Access-Control-Allow-Methods'', js ''GET, POST, PATCH, DELETE, OPTIONS''),
      (js ''Access-Control-Allow-Headers'', js ''Content-Type, Authorization, X-Requested-With''),
      (js ''Access-Control-Max-Age'', js ''86400'')]
     @ (if truthy (header req (js ''Origin''))
           \<and> the (header req (js ''Origin'')) \<in> set ALLOWED_ORIGINS_A
        then [(js ''Access-Control-Allow-Origin'', the (header req (js ''Origin''))),
              (js ''Access-Control-Allow-Credentials'', js ''true'')]
        else [])"

datatype validation_A = Invalid_A jsstring | Valid_A jsstring jsstring "jsstring option"

definition validatePath_A :: "jsstring \<Rightarrow> validation_A" where
  "validatePath_A path =
     (let parts = filter (\<lambda>p. p \<noteq> []) (split path 47) in
      if length parts < 2 \<or> length parts > 3 then Invalid_A (js ''Invalid path format'')
      else
        (let baseId = parts ! 0; tableName = parts ! 1 in
         if baseId \<notin> set ALLOWED_PATHS_bases then Invalid_A (js ''Base not allowed'')
         else if tableName \<notin> set ALLOWED_PATHS_tables then Invalid_A (js ''Table not allowed'')
         else Valid_A baseId tableName (at_index parts 2)))"

text \<open>
  \<open>url.pathname.match(/^\/api\/airtable\/(.+)$/)\<close>: the captured group, when the path has
  the prefix and a non-empty rest without line terminators.
\<close>

definition line_terminator :: "nat \<Rightarrow> bool" where
  "line_terminator c \<longleftrightarrow> c \<in> {10, 13, 8232, 8233}"

definition pathMatch :: "jsstring \<Rightarrow> jsstring option" where
  "pathMatch p =
     (let rest = drop (length (js ''/api/airtable/'')) p in
      if startsWith p (js ''/api/airtable/'') \<and> rest \<noteq> [] \<and> \<not> list_ex line_terminator rest
      then Some rest else None)"

definition error_A ::
  "(jsstring \<times> jval) list \<Rightarrow> nat \<Rightarrow> (jsstring \<times> jsstring) list \<Rightarrow> 'j request
     \<Rightarrow> js_error + 'j response" where
  "error_A obj st extra req = Response (JsonObject obj) st (json_headers @ extra @ getCorsHeaders_A req)"

definition failed_A :: "js_error \<Rightarrow> 'j request \<Rightarrow> js_error + 'j response" where
  "failed_A e req =
     error_A [(js ''error'', JString (js ''Failed to fetch from Airtable'')),
              (js ''details'', JMessageOf e)] 502 [] req"

text \<open>
  The outbound request for a validated path; a mutating method carries the re-serialised
  JSON body, which the handler has parsed before.
\<close>

definition airtableRequest_A ::
  "'j event_context \<Rightarrow> jsstring \<Rightarrow> jsstring \<Rightarrow> jsstring option \<Rightarrow> 'j fetch_call" where
  "airtableRequest_A context baseId encodedTable recordId =
     (let req = request context in
      \<lparr>url =
         js ''https://api.airtable.com/v0/'' @ baseId @ js ''/'' @ encodedTable
         @ (if truthy recordId then js ''/'' @ the recordId else [])
         @ search req,
       set_calls = [],
       options_method = req_method req,
       options_headers =
         [(js ''Authorization'', js ''Bearer '' @ the (AIRTABLE_TOKEN context)),
          (js ''Content-Type'', js ''application/json'')],
       options_body =
         (if req_method req \<in> {js ''POST'', js ''PATCH'', js ''PUT''}
          then JsonBody (the (body_json req)) else NoBody)\<rparr>)"

text \<open>
  The \<open>try\<close>/\<open>catch\<close> around \<open>fetch\<close>: the upstream body is parsed and re-serialised; any
  error on the way is answered with 502 and the error's message.
\<close>

definition relay_A ::
  "'j event_context \<Rightarrow> rate_result \<Rightarrow> 'j fetch_call \<Rightarrow> js_error + 'j response" where
  "relay_A context rateLimit call =
     (let req = request context in
      case fetch context call of
        Rejected m \<Rightarrow> failed_A (FetchError m) req
      | Resolved r \<Rightarrow>
          (case upstream_json r of
             Inl m \<Rightarrow> failed_A (BodySyntaxError m) req
           | Inr data \<Rightarrow>
               (case Response (JsonValue data) (upstream_status r)
                       (json_headers
                        @ [(js ''X-RateLimit-Limit'', toString RATE_LIMIT),
                           (js ''X-RateLimit-Remaining'', toString (remaining rateLimit))]
                        @ getCorsHeaders_A req) of
                  Inl e \<Rightarrow> failed_A e req
                | Inr resp \<Rightarrow> Inr resp)))"

definition onRequest_A ::
  "'j event_context \<Rightarrow> store_A \<Rightarrow> (js_error + 'j response) \<times> store_A \<times> 'j fetch_call list" where
  "onRequest_A context rateLimitStore =
     (let req = request context in
      if req_method req = js ''OPTIONS'' then
        (Response NullBody 204 (getCorsHeaders_A req), rateLimitStore, [])
      else if \<not> truthy (AIRTABLE_TOKEN context) then
        (error_A [(js ''error'', JString (js ''Server configuration error''))] 500 [] req,
         rateLimitStore, [])
      else
        (let clientIP = getRateLimitKey req;
             (rateLimit, rateLimitStore') =
                checkRateLimit_A rateLimitStore clientIP (Date_now context 0)
         in
         if \<not> allowed rateLimit then
           (error_A [(js ''error'', JString (js ''Rate limit exceeded'')),
                     (js ''resetAt'', JNumber (the (resetAt rateLimit)))] 429
              [(js ''X-RateLimit-Limit'', toString RATE_LIMIT),
               (js ''X-RateLimit-Remaining'', js ''0''),
               (js ''X-RateLimit-Reset'', toString (the (resetAt rateLimit))),
               (js ''Retry-After'',
                  toString (ceil_div_1000 (the (resetAt rateLimit) - Date_now context 1)))]
              req,
            rateLimitStore', [])
         else
           (case pathMatch (pathname req) of
              None \<Rightarrow>
                (error_A [(js ''error'', JString (js ''Invalid endpoint''))] 400 [] req,
                 rateLimitStore', [])
            | Some airtablePath \<Rightarrow>
                (case validatePath_A airtablePath of
                   Invalid_A err \<Rightarrow>
                     (error_A [(js ''error'', JString err)] 403 [] req, rateLimitStore', [])
                 | Valid_A baseId tableName recordId \<Rightarrow>
                     (case encodeURIComponent tableName of
                        Inl e \<Rightarrow> (Inl e, rateLimitStore', [])
                      | Inr encodedTable \<Rightarrow>
                          if req_method req \<in> {js ''POST'', js ''PATCH'', js ''PUT''}
                             \<and> body_json req = None
                          then
                            (error_A [(js ''error'', JString (js ''Invalid JSON body''))] 400 [] req,
                             rateLimitStore', [])
                          else
                            (let call = airtableRequest_A context baseId encodedTable recordId
                             in (relay_A context rateLimit call, rateLimitStore', [call])))))))"

section \<open>What the two limiters return\<close>

text \<open>
  The value that \<open>checkRateLimit\<close> hands to its caller: \<open>true\<close> or \<open>false\<close> in the
  query-parameter variant, an object with \<open>allowed\<close>, \<open>remaining\<close> and \<open>resetAt\<close> in the
  path-segment variant. Reading \<open>.remaining\<close> off a boolean gives \<open>undefined\<close>.
\<close>

datatype returned = Boolean bool | Object rate_result

definition returned_A :: "store_A \<Rightarrow> jsstring \<Rightarrow> int \<Rightarrow> returned" where
  "returned_A s ip now = Object (fst (checkRateLimit_A s ip now))"

definition returned_B :: "store_B \<Rightarrow> jsstring \<Rightarrow> int \<Rightarrow> returned" where
  "returned_B s ip now = Boolean (fst (checkRateLimit_B s ip now))"

fun property_remaining :: "returned \<Rightarrow> int option" where
  "property_remaining (Boolean b) = None"
| "property_remaining (Object r) = Some (remaining r)"

section \<open>Sequences of requests and sample inputs\<close>

text \<open>A client whose requests reach the limiter at the times \<open>ts\<close>, one after the other.\<close>

fun requests_A :: "store_A \<Rightarrow> jsstring \<Rightarrow> int list \<Rightarrow> rate_result list \<times> store_A" where
  "requests_A s ip [] = ([], s)"
| "requests_A s ip (t # ts) =
     (let (r, s') = checkRateLimit_A s ip t; (rs, s'') = requests_A s' ip ts in (r # rs, s''))"

fun requests_B :: "store_B \<Rightarrow> jsstring \<Rightarrow> int list \<Rightarrow> bool list \<times> store_B" where
  "requests_B s ip [] = ([], s)"
| "requests_B s ip (t # ts) =
     (let (r, s') = checkRateLimit_B s ip t; (rs, s'') = requests_B s' ip ts in (r # rs, s''))"

text \<open>
  A \<open>GET\<close> from the client \<open>203.0.113.7\<close> that names an allowed table in both URL shapes,
  with the token configured, the clock at 60000 and an upstream that refuses the
  connection. The examples below vary it field by field.
\<close>

definition sample_request :: "unit request" where
  "sample_request =
     \<lparr>req_method = js ''GET'',
      header = [js ''CF-Connecting-IP'' \<mapsto> js ''203.0.113.7''],
      pathname = js ''/api/airtable/appXXXXXXXXXXXXXX/Clients'',
      search = [],
      searchParams = [(js ''path'', js ''applOjDjhH0RqLtBH/tblMptC862PyL7Znw'')],
      body_text = None,
      body_json = None\<rparr>"

definition sample_context :: "unit event_context" where
  "sample_context =
     \<lparr>request = sample_request,
      AIRTABLE_TOKEN = Some (js ''secret''),
      Date_now = (\<lambda>k. 60000),
      fetch = (\<lambda>c. Rejected (js ''connection refused''))\<rparr>"

text \<open>An upstream that answers 200 with an empty list of records.\<close>

definition upstream_empty_list :: "unit fetch_call \<Rightarrow> unit fetch_result" where
  "upstream_empty_list c =
     Resolved \<lparr>upstream_status = 200,
               upstream_text = Inr (js ''{\"records\":[]}''),
               upstream_json = Inr ()\<rparr>"

section \<open>What reaching the upstream call means\<close>

text \<open>
  The handlers call \<open>fetch\<close> at most once, and only after every earlier stage has let the
  request through. The lemmas below recover those stages from the fact that a call was made.
\<close>

lemma onRequest_A_reaches_upstream:
  assumes "c \<in> set (snd (snd (onRequest_A ctx sA)))"
  obtains p b t r e where
    "req_method (request ctx) \<noteq> js ''OPTIONS''"
    "truthy (AIRTABLE_TOKEN ctx)"
    "allowed (fst (checkRateLimit_A sA (getRateLimitKey (request ctx)) (Date_now ctx 0)))"
    "pathMatch (pathname (request ctx)) = Some p"
    "validatePath_A p = Valid_A b t r"
    "encodeURIComponent t = Inr e"
    "\<not> (req_method (request ctx) \<in> {js ''POST'', js ''PATCH'', js ''PUT''}
        \<and> body_json (request ctx) = None)"
    "c = airtableRequest_A ctx b e r"
proof -
  note defs = onRequest_A_def Let_def split_beta
  have calls: "snd (snd (onRequest_A ctx sA)) \<noteq> []"
    using assms by auto
  have 1: "req_method (request ctx) \<noteq> js ''OPTIONS''"
    using calls by (rule contrapos_nn) (simp add: defs)
  have 2: "truthy (AIRTABLE_TOKEN ctx)"
    using calls by (rule contrapos_np) (simp add: defs 1)
  have 3: "allowed (fst (checkRateLimit_A sA (getRateLimitKey (request ctx)) (Date_now ctx 0)))"
    using calls by (rule contrapos_np) (simp add: defs 1 2)
  have "pathMatch (pathname (request ctx)) \<noteq> None"
    using calls by (rule contrapos_nn) (simp add: defs 1 2 3)
  then obtain p where 4: "pathMatch (pathname (request ctx)) = Some p"
    by auto
  have "\<exists>b t r. validatePath_A p = Valid_A b t r"
    using calls by (rule contrapos_np) (cases "validatePath_A p", simp_all add: defs 1 2 3 4)
  then obtain b t r where 5: "validatePath_A p = Valid_A b t r"
    by auto
  have "\<exists>e. encodeURIComponent t = Inr e"
    using calls by (rule contrapos_np) (cases "encodeURIComponent t", simp_all add: defs 1 2 3 4 5)
  then obtain e where 6: "encodeURIComponent t = Inr e"
    by auto
  have 7: "\<not> (req_method (request ctx) \<in> {js ''POST'', js ''PATCH'', js ''PUT''}
        \<and> body_json (request ctx) = None)"
    using calls by (rule contrapos_nn) (simp add: defs 1 2 3 4 5 6)
  have "snd (snd (onRequest_A ctx sA)) = [airtableRequest_A ctx b e r]"
    using 1 2 3 4 5 6 7 by (simp add: defs)
  with assms have 8: "c = airtableRequest_A ctx b e r"
    by simp
  from 1 2 3 4 5 6 7 8 show thesis by (rule that)
qed

lemma onRequest_A_result:
  assumes "c \<in> set (snd (snd (onRequest_A ctx sA)))"
  shows "onRequest_A ctx sA =
           (relay_A ctx (fst (checkRateLimit_A sA (getRateLimitKey (request ctx)) (Date_now ctx 0))) c,
            snd (checkRateLimit_A sA (getRateLimitKey (request ctx)) (Date_now ctx 0)), [c])"
proof -
  from assms obtain p b t r e where
    "req_method (request ctx) \<noteq> js ''OPTIONS''"
    "truthy (AIRTABLE_TOKEN ctx)"
    "allowed (fst (checkRateLimit_A sA (getRateLimitKey (request ctx)) (Date_now ctx 0)))"
    "pathMatch (pathname (request ctx)) = Some p"
    "validatePath_A p = Valid_A b t r"
    "encodeURIComponent t = Inr e"
    "\<not> (req_method (request ctx) \<in> {js ''POST'', js ''PATCH'', js ''PUT''}
        \<and> body_json (request ctx) = None)"
    "c = airtableRequest_A ctx b e r"
    by (rule onRequest_A_reaches_upstream)
  then show ?thesis
    by (simp add: onRequest_A_def Let_def split_beta)
qed

lemma onRequest_A_admitted:
  assumes "c \<in> set (snd (snd (onRequest_A ctx sA)))"
  shows "allowed (fst (checkRateLimit_A sA (getRateLimitKey (request ctx)) (Date_now ctx 0)))"
  using assms by (rule onRequest_A_reaches_upstream)

lemma onRequest_B_reaches_upstream:
  assumes "c \<in> set (snd (snd (onRequest_B ctx sB)))"
  shows "req_method (request ctx) \<noteq> js ''OPTIONS''"
    and "\<not> (req_method (request ctx) \<noteq> js ''GET''
         \<and> or_default (header (request ctx) (js ''Origin'')) [] \<notin> set ALLOWED_ORIGINS_B)"
    and "fst (checkRateLimit_B sB (clientIP_B (request ctx)) (Date_now ctx 0))"
    and "truthy (AIRTABLE_TOKEN ctx)"
    and "validatePath_B (map_of (searchParams (request ctx)) (js ''path'')) = Inr Valid_B"
    and "c = airtableRequest_B ctx (the (map_of (searchParams (request ctx)) (js ''path'')))"
proof -
  note defs = onRequest_B_def Let_def split_beta
  have calls: "snd (snd (onRequest_B ctx sB)) \<noteq> []"
    using assms by auto
  show 1: "req_method (request ctx) \<noteq> js ''OPTIONS''"
    using calls by (rule contrapos_nn) (simp add: defs)
  show 2: "\<not> (req_method (request ctx) \<noteq> js ''GET''
         \<and> or_default (header (request ctx) (js ''Origin'')) [] \<notin> set ALLOWED_ORIGINS_B)"
    using calls by (rule contrapos_nn) (simp add: defs 1)
  show 3: "fst (checkRateLimit_B sB (clientIP_B (request ctx)) (Date_now ctx 0))"
  proof (rule ccontr)
    assume "\<not> fst (checkRateLimit_B sB (clientIP_B (request ctx)) (Date_now ctx 0))"
    with 1 2 have "snd (snd (onRequest_B ctx sB)) = []" by (simp add: defs)
    with calls show False by simp
  qed
  show 4: "truthy (AIRTABLE_TOKEN ctx)"
  proof (rule ccontr)
    assume "\<not> truthy (AIRTABLE_TOKEN ctx)"
    with 1 2 3 have "snd (snd (onRequest_B ctx sB)) = []" by (simp add: defs)
    with calls show False by simp
  qed
  show 5: "validatePath_B (map_of (searchParams (request ctx)) (js ''path'')) = Inr Valid_B"
  proof (rule ccontr)
    assume "validatePath_B (map_of (searchParams (request ctx)) (js ''path'')) \<noteq> Inr Valid_B"
    with 1 2 3 4 have "snd (snd (onRequest_B ctx sB)) = []"
      by (simp add: defs split: sum.splits validation_B.splits)
    with calls show False by simp
  qed
  have "snd (snd (onRequest_B ctx sB))
          = [airtableRequest_B ctx (the (map_of (searchParams (request ctx)) (js ''path'')))]"
    using 1 2 3 4 5 by (simp add: defs)
  with assms show "c = airtableRequest_B ctx (the (map_of (searchParams (request ctx)) (js ''path'')))"
    by simp
qed

lemma onRequest_B_result:
  assumes "c \<in> set (snd (snd (onRequest_B ctx sB)))"
  shows "onRequest_B ctx sB =
           (relay_B ctx (getCorsHeaders_B (or_default (header (request ctx) (js ''Origin'')) [])) c,
            snd (checkRateLimit_B sB (clientIP_B (request ctx)) (Date_now ctx 0)), [c])"
  using onRequest_B_reaches_upstream [OF assms]
  by (simp add: onRequest_B_def Let_def split_beta)

text \<open>The sample request is keyed by its connecting address in both variants.\<close>

lemma sample_key_A: "getRateLimitKey sample_request = js ''203.0.113.7''"
  by (simp add: getRateLimitKey_def sample_request_def or_default_def)

lemma sample_key_B: "clientIP_B sample_request = js ''203.0.113.7''"
  by (simp add: clientIP_B_def sample_request_def or_default_def)

lemma toString_RATE_LIMIT: "toString RATE_LIMIT = js ''1000''"
  by (simp add: toString_def RATE_LIMIT_def digits.simps)

section \<open>Path validation\<close>


lemma replace_at_front: "pat \<noteq> [] \<Longrightarrow> replace (pat @ x) pat rep = rep @ x"
  by (cases pat) (simp_all add: startsWith_def)

lemma split_not_Nil: "split s sep \<noteq> []"
  by (induction s) (auto split: list.splits)

lemma split_Cons_other:
  "c \<noteq> sep \<Longrightarrow> \<exists>p ps. split (c # cs) sep = (c # p) # ps"
  using split_not_Nil [of cs sep] by (cases "split cs sep") auto

lemma at_index_0: "at_index xs 0 = Some x \<Longrightarrow> \<exists>ps. xs = x # ps"
  by (cases xs) auto

lemma decodeURIComponent_keeps_a:
  "decodeURIComponent (97 # cs) = Inr d \<Longrightarrow> \<exists>d'. d = 97 # d'"
  by (auto simp: decodeURIComponent.simps split: sum.splits)

lemma no_allowed_table_starts_with_a: "97 # x \<notin> set ALLOWED_TABLES"
  by (simp add: ALLOWED_TABLES_def)

lemma validatePath_B_valid_only:
  assumes "validatePath_B path = Inr Valid_B"
  shows "\<exists>rest table ps.
           path = Some (ALLOWED_BASE @ js ''/'' @ rest)
           \<and> split rest 47 = table # ps
           \<and> (table \<in> set ALLOWED_TABLES
                \<or> (\<exists>d. decodeURIComponent table = Inr d \<and> d \<in> set ALLOWED_TABLES))"
proof -
  let ?pat = "ALLOWED_BASE @ js ''/''"
  have 1: "truthy path"
  proof (rule ccontr)
    assume "\<not> truthy path"
    then have "validatePath_B path = Inr (Invalid_B (js ''Missing path parameter''))"
      by (simp add: validatePath_B_def)
    with assms show False by simp
  qed
  then obtain s where s: "path = Some s" "s \<noteq> []"
    by (cases path) auto
  have 2: "startsWith s ALLOWED_BASE"
  proof (rule ccontr)
    assume "\<not> startsWith s ALLOWED_BASE"
    with s have "validatePath_B path = Inr (Invalid_B (js ''Invalid base ID''))"
      by (simp add: validatePath_B_def)
    with assms show False by simp
  qed
  let ?r = "replace s ?pat []"
  have 3: "truthy (at_index (split ?r 47) 0)"
  proof (rule ccontr)
    assume "\<not> truthy (at_index (split ?r 47) 0)"
    with s 2 have "validatePath_B path = Inr (Invalid_B (js ''Missing table name''))"
      by (simp add: validatePath_B_def Let_def)
    with assms show False by simp
  qed
  then obtain table where t: "at_index (split ?r 47) 0 = Some table" and tn: "table \<noteq> []"
    by (cases "at_index (split ?r 47) 0") simp_all
  from at_index_0 [OF t] obtain ps where ps: "split ?r 47 = table # ps" ..
  obtain d where d: "decodeURIComponent table = Inr d"
  proof (cases "decodeURIComponent table")
    case (Inl e)
    with s 2 t tn have "validatePath_B path = Inl e"
      by (simp add: validatePath_B_def Let_def)
    with assms show ?thesis by simp
  next
    case (Inr d)
    then show ?thesis by (rule that)
  qed
  have m: "table \<in> set ALLOWED_TABLES \<or> d \<in> set ALLOWED_TABLES"
  proof (rule ccontr)
    assume "\<not> (table \<in> set ALLOWED_TABLES \<or> d \<in> set ALLOWED_TABLES)"
    with s 2 t tn d have "validatePath_B path = Inr (Invalid_B (js ''Table not allowed''))"
      by (simp add: validatePath_B_def Let_def)
    with assms show False by simp
  qed
  show ?thesis
  proof (cases "startsWith s ?pat")
    case True
    define rest where "rest = drop (length ?pat) s"
    from True have "take (length ?pat) s = ?pat"
      by (simp only: startsWith_def)
    then have eq: "s = ?pat @ rest"
      unfolding rest_def by (metis append_take_drop_id)
    have "replace (?pat @ rest) ?pat [] = [] @ rest"
      by (rule replace_at_front) simp
    with eq have "?r = rest"
      by simp
    with ps have sp: "split rest 47 = table # ps"
      by simp
    from eq s have p: "path = Some (ALLOWED_BASE @ js ''/'' @ rest)"
      by simp
    from m d have "table \<in> set ALLOWED_TABLES
                \<or> (\<exists>d. decodeURIComponent table = Inr d \<and> d \<in> set ALLOWED_TABLES)"
      by blast
    with p sp show ?thesis
      by blast
  next
    case False
    from 2 obtain s' where s': "s = 97 # s'"
      by (cases s) (auto simp: startsWith_def ALLOWED_BASE_def)
    with False have "?r = 97 # replace s' ?pat []"
      by simp
    moreover obtain p qs where "split (97 # replace s' ?pat []) 47 = (97 # p) # qs"
      using split_Cons_other [of 97 47 "replace s' ?pat []"] by auto
    ultimately have table: "table = 97 # p"
      using ps by simp
    with d obtain d' where "d = 97 # d'"
      using decodeURIComponent_keeps_a by blast
    with table m no_allowed_table_starts_with_a show ?thesis
      by blast
  qed
qed

lemma validatePath_B_missing:
  "validatePath_B None = Inr (Invalid_B (js ''Missing path parameter''))"
  "validatePath_B (Some []) = Inr (Invalid_B (js ''Missing path parameter''))"
  by (simp_all add: validatePath_B_def)

lemma validatePath_B_either_form:
  "validatePath_B (Some (js ''applOjDjhH0RqLtBH/Team%20Members'')) = Inr Valid_B"
  "validatePath_B (Some (js ''applOjDjhH0RqLtBH/Team Members'')) = Inr Valid_B"
  "validatePath_B (Some (js ''applOjDjhH0RqLtBH/Clients2'')) = Inr (Invalid_B (js ''Table not allowed''))"
  "validatePath_B (Some (js ''appOther/Team Members'')) = Inr (Invalid_B (js ''Invalid base ID''))"
  by code_simp+

lemma validatePath_A_valid_only:
  assumes "validatePath_A path = Valid_A b t r"
  shows "b \<in> set ALLOWED_PATHS_bases \<and> t \<in> set ALLOWED_PATHS_tables
       \<and> (filter (\<lambda>p. p \<noteq> []) (split path 47) = [b, t] \<and> r = None
           \<or> (\<exists>x. filter (\<lambda>p. p \<noteq> []) (split path 47) = [b, t, x] \<and> r = Some x))"
proof -
  let ?parts = "filter (\<lambda>p. p \<noteq> []) (split path 47)"
  from assms have len: "length ?parts = 2 \<or> length ?parts = 3"
    by (auto simp: validatePath_A_def Let_def split: if_splits)
  from assms have v: "?parts ! 0 = b" "?parts ! 1 = t" "at_index ?parts 2 = r"
    "b \<in> set ALLOWED_PATHS_bases" "t \<in> set ALLOWED_PATHS_tables"
    by (auto simp: validatePath_A_def Let_def split: if_splits)
  from len obtain x y zs where p: "?parts = x # y # zs" "zs = [] \<or> (\<exists>z. zs = [z])"
    by (cases ?parts; cases "tl ?parts"; cases "tl (tl ?parts)") auto
  with v show ?thesis
    by (auto simp: numeral_2_eq_2)
qed

text \<open>
  C1 (query-parameter variant). The claim asks that a path whose table segment is on the
  allow-list in neither form be answered with \<open>valid: false\<close> and an error string. For the
  path \<open>applOjDjhH0RqLtBH/%\<close> the table segment is \<open>%\<close>, which is not on the list;
  \<open>decodeURIComponent\<close> throws on it before the list is consulted, so \<open>validatePath\<close> returns
  nothing and the error leaves it as a \<open>URIError\<close>.
\<close>

theorem validatePath_B_malformed_escape:
  "validatePath_B (Some (js ''applOjDjhH0RqLtBH/%'')) = Inl URIError"
  by code_simp















section \<open>Query parameters sent upstream\<close>

text \<open>
  What the query-parameter variant does guarantee: the parameters it copies onto the
  upstream URL with \<open>searchParams.set\<close> are the inbound ones, in order, whose name is not
  \<open>path\<close> and is on the list or starts with \<open>sort[\<close>. In the spec's example only \<open>pageSize\<close>
  is copied.
\<close>

lemma set_calls_allow_listed:
  assumes "c \<in> set (snd (snd (onRequest_B ctx sB)))"
  shows "set_calls c = filter forwarded (searchParams (request ctx))"
    and "\<forall>kv\<in>set (set_calls c).
           fst kv \<noteq> js ''path'' \<and> (fst kv \<in> set allowedParams \<or> startsWith (fst kv) (js ''sort[''))"
proof -
  show "set_calls c = filter forwarded (searchParams (request ctx))"
    using onRequest_B_reaches_upstream(6) [OF assms]
    by (simp add: airtableRequest_B_def Let_def)
  then show "\<forall>kv\<in>set (set_calls c).
           fst kv \<noteq> js ''path'' \<and> (fst kv \<in> set allowedParams \<or> startsWith (fst kv) (js ''sort[''))"
    by (simp add: forwarded_def)
qed

lemma forwarded_spec_example:
  "filter forwarded
     [(js ''path'', js ''applOjDjhH0RqLtBH/tblMptC862PyL7Znw''), (js ''pageSize'', js ''5''),
      (js ''evil'', js ''1'')]
   = [(js ''pageSize'', js ''5'')]"
  by (simp add: forwarded_def allowedParams_def startsWith_def)

text \<open>
  C7. The claim says that no parameter name off the allow-list reaches the upstream call.
  The copied parameters are not the whole query, though: the value of \<open>path\<close> is pasted into
  the string from which the upstream URL is parsed, and \<open>validatePath\<close> accepts anything
  after the table segment. For the inbound query \<open>?path=applOjDjhH0RqLtBH/Team
  Members/rec1?evil=1\<close> (the \<open>?\<close> and \<open>=\<close> percent-encoded on the wire) the handler copies no
  parameter at all and fetches the URL parsed from the string below, whose query is
  \<open>evil=1\<close>.
\<close>

theorem path_embedded_query_reaches_upstream:
  "map url
     (snd (snd (onRequest_B
        (sample_context\<lparr>request := sample_request\<lparr>searchParams :=
            [(js ''path'', js ''applOjDjhH0RqLtBH/Team Members/rec1?evil=1'')]\<rparr>\<rparr>)
        Map.empty)))
   = [js ''https://api.airtable.com/v0/applOjDjhH0RqLtBH/Team Members/rec1?evil=1'']
   \<and> map set_calls
     (snd (snd (onRequest_B
        (sample_context\<lparr>request := sample_request\<lparr>searchParams :=
            [(js ''path'', js ''applOjDjhH0RqLtBH/Team Members/rec1?evil=1'')]\<rparr>\<rparr>)
        Map.empty)))
   = [[]]
   \<and> raw_query (js ''https://api.airtable.com/v0/applOjDjhH0RqLtBH/Team Members/rec1?evil=1'')
     = Some (js ''evil=1'')"
proof -
  let ?req = "sample_request\<lparr>searchParams :=
            [(js ''path'', js ''applOjDjhH0RqLtBH/Team Members/rec1?evil=1'')]\<rparr>"
  have ip: "clientIP_B ?req = js ''203.0.113.7''"
    by (simp add: clientIP_B_def sample_request_def or_default_def)
  have lim: "checkRateLimit_B Map.empty (js ''203.0.113.7'') 60000 =
      (True, [js ''203.0.113.7'' \<mapsto> \<lparr>windowStart = 60000, count_B = 1\<rparr>])"
    by (simp add: checkRateLimit_B_def)
  have v: "validatePath_B (Some (js ''applOjDjhH0RqLtBH/Team Members/rec1?evil=1'')) = Inr Valid_B"
    by code_simp
  have meth: "req_method sample_request = js ''GET''"
    by (simp add: sample_request_def)
  have "forwarded (js ''path'', js ''applOjDjhH0RqLtBH/Team Members/rec1?evil=1'') = False"
    by (simp add: forwarded_def)
  with ip lim v meth
  have "map url (snd (snd (onRequest_B (sample_context\<lparr>request := ?req\<rparr>) Map.empty)))
          = [js ''https://api.airtable.com/v0/applOjDjhH0RqLtBH/Team Members/rec1?evil=1'']
      \<and> map set_calls (snd (snd (onRequest_B (sample_context\<lparr>request := ?req\<rparr>) Map.empty)))
          = [[]]"
    by (simp add: onRequest_B_def sample_context_def airtableRequest_B_def Let_def)
  moreover
  have "raw_query (js ''https://api.airtable.com/v0/applOjDjhH0RqLtBH/Team Members/rec1?evil=1'')
          = Some (js ''evil=1'')"
    by simp
  ultimately show ?thesis by simp
qed

section \<open>The rate limiter\<close>

text \<open>
  C3, as stated, fails in the query-parameter variant: its \<open>checkRateLimit\<close> returns a bare
  boolean, so a request that is counted and allowed comes with no \<open>remaining\<close> at all. For
  a client with 41 requests in the current window the 42nd is allowed and counted in both
  variants; the path-segment variant returns remaining 958, the limit minus the new count,
  and the query-parameter variant returns \<open>true\<close>, whose \<open>remaining\<close> is undefined.
\<close>

theorem remaining_counterexample:
  "checkRateLimit_B [js ''203.0.113.7'' \<mapsto> \<lparr>windowStart = 0, count_B = 41\<rparr>]
     (js ''203.0.113.7'') 10
   = (True, [js ''203.0.113.7'' \<mapsto> \<lparr>windowStart = 0, count_B = 42\<rparr>])
   \<and> returned_B [js ''203.0.113.7'' \<mapsto> \<lparr>windowStart = 0, count_B = 41\<rparr>]
       (js ''203.0.113.7'') 10
     = Boolean True
   \<and> property_remaining
       (returned_B [js ''203.0.113.7'' \<mapsto> \<lparr>windowStart = 0, count_B = 41\<rparr>]
          (js ''203.0.113.7'') 10)
     = None
   \<and> property_remaining
       (returned_A [js ''203.0.113.7'' \<mapsto> \<lparr>count_A = 41, timestamp = 0\<rparr>]
          (js ''203.0.113.7'') 10)
     = Some 958"
  by (simp add: checkRateLimit_A_def checkRateLimit_B_def returned_A_def returned_B_def
        RATE_LIMIT_def RATE_WINDOW_def)

text \<open>
  C3, amended. \<open>checkRateLimit\<close> is the fixed-window counter in both variants. For a client
  without a record, or with a record whose window started more than \<open>RATE_WINDOW\<close> ms before
  \<open>now\<close>, the record becomes (start \<open>now\<close>, count 1) and the request is allowed, whatever the
  old count was. Otherwise a count at or above \<open>RATE_LIMIT\<close> rejects and leaves the map as it
  is, and a lower count is incremented and allows. The path-segment variant returns with
  the decision the limit minus the new count as remaining (on a rejection remaining 0 and
  the reset time start + window); the query-parameter variant returns the decision only,
  a boolean without a \<open>remaining\<close>.
\<close>

theorem checkRateLimit_fixed_window:
  "((sA ip = None \<or> (\<exists>rec. sA ip = Some rec \<and> now - timestamp rec > RATE_WINDOW)) \<longrightarrow>
      checkRateLimit_A sA ip now =
        (\<lparr>allowed = True, remaining = RATE_LIMIT - 1, resetAt = None\<rparr>,
         sA(ip \<mapsto> \<lparr>count_A = 1, timestamp = now\<rparr>)))
   \<and> (\<forall>rec. sA ip = Some rec \<and> now - timestamp rec \<le> RATE_WINDOW \<and> count_A rec \<ge> RATE_LIMIT \<longrightarrow>
      checkRateLimit_A sA ip now =
        (\<lparr>allowed = False, remaining = 0, resetAt = Some (timestamp rec + RATE_WINDOW)\<rparr>, sA))
   \<and> (\<forall>rec. sA ip = Some rec \<and> now - timestamp rec \<le> RATE_WINDOW \<and> count_A rec < RATE_LIMIT \<longrightarrow>
      checkRateLimit_A sA ip now =
        (\<lparr>allowed = True, remaining = RATE_LIMIT - (count_A rec + 1), resetAt = None\<rparr>,
         sA(ip \<mapsto> \<lparr>count_A = count_A rec + 1, timestamp = timestamp rec\<rparr>)))
   \<and> ((sB ip = None \<or> (\<exists>rec. sB ip = Some rec \<and> now - windowStart rec > RATE_WINDOW)) \<longrightarrow>
      checkRateLimit_B sB ip now = (True, sB(ip \<mapsto> \<lparr>windowStart = now, count_B = 1\<rparr>)))
   \<and> (\<forall>rec. sB ip = Some rec \<and> now - windowStart rec \<le> RATE_WINDOW \<and> count_B rec \<ge> RATE_LIMIT \<longrightarrow>
      checkRateLimit_B sB ip now = (False, sB))
   \<and> (\<forall>rec. sB ip = Some rec \<and> now - windowStart rec \<le> RATE_WINDOW \<and> count_B rec < RATE_LIMIT \<longrightarrow>
      checkRateLimit_B sB ip now =
        (True, sB(ip \<mapsto> \<lparr>windowStart = windowStart rec, count_B = count_B rec + 1\<rparr>)))
   \<and> property_remaining (returned_A sA ip now) = Some (remaining (fst (checkRateLimit_A sA ip now)))
   \<and> property_remaining (returned_B sB ip now) = None"
  by (auto simp: checkRateLimit_A_def checkRateLimit_B_def returned_A_def returned_B_def
        split: option.splits)

text \<open>
  The three cases at concrete inputs: a first request; a request 60001 ms after the window
  start with the count at the limit (reset and allowed); a request exactly 60000 ms after
  the start with the count at the limit (rejected); and one with the count at 999 (allowed,
  nothing remaining in the path-segment variant, no \<open>remaining\<close> in the other).
\<close>

theorem checkRateLimit_fixed_window_witness:
  "checkRateLimit_A Map.empty (js ''203.0.113.7'') 5 =
     (\<lparr>allowed = True, remaining = 999, resetAt = None\<rparr>,
      [js ''203.0.113.7'' \<mapsto> \<lparr>count_A = 1, timestamp = 5\<rparr>])
   \<and> checkRateLimit_A [js ''203.0.113.7'' \<mapsto> \<lparr>count_A = 1000, timestamp = 0\<rparr>]
        (js ''203.0.113.7'') 60001 =
     (\<lparr>allowed = True, remaining = 999, resetAt = None\<rparr>,
      [js ''203.0.113.7'' \<mapsto> \<lparr>count_A = 1, timestamp = 60001\<rparr>])
   \<and> checkRateLimit_A [js ''203.0.113.7'' \<mapsto> \<lparr>count_A = 1000, timestamp = 0\<rparr>]
        (js ''203.0.113.7'') 60000 =
     (\<lparr>allowed = False, remaining = 0, resetAt = Some 60000\<rparr>,
      [js ''203.0.113.7'' \<mapsto> \<lparr>count_A = 1000, timestamp = 0\<rparr>])
   \<and> checkRateLimit_A [js ''203.0.113.7'' \<mapsto> \<lparr>count_A = 999, timestamp = 0\<rparr>]
        (js ''203.0.113.7'') 10 =
     (\<lparr>allowed = True, remaining = 0, resetAt = None\<rparr>,
      [js ''203.0.113.7'' \<mapsto> \<lparr>count_A = 1000, timestamp = 0\<rparr>])
   \<and> checkRateLimit_B Map.empty (js ''203.0.113.7'') 5 =
     (True, [js ''203.0.113.7'' \<mapsto> \<lparr>windowStart = 5, count_B = 1\<rparr>])
   \<and> checkRateLimit_B [js ''203.0.113.7'' \<mapsto> \<lparr>windowStart = 0, count_B = 1000\<rparr>]
        (js ''203.0.113.7'') 60001 =
     (True, [js ''203.0.113.7'' \<mapsto> \<lparr>windowStart = 60001, count_B = 1\<rparr>])
   \<and> checkRateLimit_B [js ''203.0.113.7'' \<mapsto> \<lparr>windowStart = 0, count_B = 1000\<rparr>]
        (js ''203.0.113.7'') 60000 =
     (False, [js ''203.0.113.7'' \<mapsto> \<lparr>windowStart = 0, count_B = 1000\<rparr>])
   \<and> checkRateLimit_B [js ''203.0.113.7'' \<mapsto> \<lparr>windowStart = 0, count_B = 999\<rparr>]
        (js ''203.0.113.7'') 10 =
     (True, [js ''203.0.113.7'' \<mapsto> \<lparr>windowStart = 0, count_B = 1000\<rparr>])
   \<and> property_remaining
       (returned_A [js ''203.0.113.7'' \<mapsto> \<lparr>count_A = 999, timestamp = 0\<rparr>]
          (js ''203.0.113.7'') 10)
     = Some 0
   \<and> property_remaining
       (returned_B [js ''203.0.113.7'' \<mapsto> \<lparr>windowStart = 0, count_B = 999\<rparr>]
          (js ''203.0.113.7'') 10)
     = None"
  using
    checkRateLimit_fixed_window
      [of "Map.empty" "js ''203.0.113.7''" 5 "Map.empty"]
    checkRateLimit_fixed_window
      [of "[js ''203.0.113.7'' \<mapsto> \<lparr>count_A = 1000, timestamp = 0\<rparr>]" "js ''203.0.113.7''" 60001
          "[js ''203.0.113.7'' \<mapsto> \<lparr>windowStart = 0, count_B = 1000\<rparr>]"]
    checkRateLimit_fixed_window
      [of "[js ''203.0.113.7'' \<mapsto> \<lparr>count_A = 1000, timestamp = 0\<rparr>]" "js ''203.0.113.7''" 60000
          "[js ''203.0.113.7'' \<mapsto> \<lparr>windowStart = 0, count_B = 1000\<rparr>]"]
    checkRateLimit_fixed_window
      [of "[js ''203.0.113.7'' \<mapsto> \<lparr>count_A = 999, timestamp = 0\<rparr>]" "js ''203.0.113.7''" 10
          "[js ''203.0.113.7'' \<mapsto> \<lparr>windowStart = 0, count_B = 999\<rparr>]"]
  by (simp add: RATE_WINDOW_def RATE_LIMIT_def)

text \<open>
  While a client's requests stay within the window opened by its first request, each one
  adds one to the count and is allowed, as long as the limit is not exceeded.
\<close>

lemma requests_A_in_window:
  "s ip = Some \<lparr>count_A = c, timestamp = t0\<rparr> \<Longrightarrow> c + int (length ts) \<le> RATE_LIMIT
   \<Longrightarrow> \<forall>t\<in>set ts. t - t0 \<le> RATE_WINDOW
   \<Longrightarrow> (\<forall>r\<in>set (fst (requests_A s ip ts)). allowed r)
       \<and> snd (requests_A s ip ts) ip = Some \<lparr>count_A = c + int (length ts), timestamp = t0\<rparr>"
proof (induction ts arbitrary: s c)
  case Nil
  then show ?case by simp
next
  case (Cons t ts)
  let ?s' = "s(ip \<mapsto> \<lparr>count_A = c + 1, timestamp = t0\<rparr>)"
  have step: "checkRateLimit_A s ip t =
      (\<lparr>allowed = True, remaining = RATE_LIMIT - (c + 1), resetAt = None\<rparr>, ?s')"
    using Cons.prems by (simp add: checkRateLimit_A_def)
  have "?s' ip = Some \<lparr>count_A = c + 1, timestamp = t0\<rparr>" by simp
  moreover have "(c + 1) + int (length ts) \<le> RATE_LIMIT" using Cons.prems by simp
  moreover have "\<forall>t\<in>set ts. t - t0 \<le> RATE_WINDOW" using Cons.prems by simp
  ultimately have IH: "(\<forall>r\<in>set (fst (requests_A ?s' ip ts)). allowed r)
       \<and> snd (requests_A ?s' ip ts) ip = Some \<lparr>count_A = (c + 1) + int (length ts), timestamp = t0\<rparr>"
    by (rule Cons.IH)
  show ?case using IH step by (simp add: split_beta add.assoc add.commute)
qed

lemma requests_B_in_window:
  "s ip = Some \<lparr>windowStart = t0, count_B = c\<rparr> \<Longrightarrow> c + int (length ts) \<le> RATE_LIMIT
   \<Longrightarrow> \<forall>t\<in>set ts. t - t0 \<le> RATE_WINDOW
   \<Longrightarrow> (\<forall>r\<in>set (fst (requests_B s ip ts)). r)
       \<and> snd (requests_B s ip ts) ip = Some \<lparr>windowStart = t0, count_B = c + int (length ts)\<rparr>"
proof (induction ts arbitrary: s c)
  case Nil
  then show ?case by simp
next
  case (Cons t ts)
  let ?s' = "s(ip \<mapsto> \<lparr>windowStart = t0, count_B = c + 1\<rparr>)"
  have step: "checkRateLimit_B s ip t = (True, ?s')"
    using Cons.prems by (simp add: checkRateLimit_B_def)
  have "?s' ip = Some \<lparr>windowStart = t0, count_B = c + 1\<rparr>" by simp
  moreover have "(c + 1) + int (length ts) \<le> RATE_LIMIT" using Cons.prems by simp
  moreover have "\<forall>t\<in>set ts. t - t0 \<le> RATE_WINDOW" using Cons.prems by simp
  ultimately have IH: "(\<forall>r\<in>set (fst (requests_B ?s' ip ts)). r)
       \<and> snd (requests_B ?s' ip ts) ip = Some \<lparr>windowStart = t0, count_B = (c + 1) + int (length ts)\<rparr>"
    by (rule Cons.IH)
  show ?case using IH step by (auto simp: split_beta add.assoc add.commute)
qed

lemma requests_A_new_window:
  assumes "sA ip = None \<or> (\<exists>rec. sA ip = Some rec \<and> RATE_WINDOW < t0 - timestamp rec)"
    and "\<forall>t\<in>set ts. t - t0 \<le> RATE_WINDOW"
    and "int (length (t0 # ts)) \<le> RATE_LIMIT"
  shows "\<forall>r\<in>set (fst (requests_A sA ip (t0 # ts))). allowed r"
    and "snd (requests_A sA ip (t0 # ts)) ip
           = Some \<lparr>count_A = int (length (t0 # ts)), timestamp = t0\<rparr>"
proof -
  let ?s' = "sA(ip \<mapsto> \<lparr>count_A = 1, timestamp = t0\<rparr>)"
  have step: "checkRateLimit_A sA ip t0 =
      (\<lparr>allowed = True, remaining = RATE_LIMIT - 1, resetAt = None\<rparr>, ?s')"
    using assms(1) by (auto simp: checkRateLimit_A_def split: option.splits)
  have "1 + int (length ts) \<le> RATE_LIMIT" using assms(3) by simp
  with requests_A_in_window [of ?s' ip 1 t0 ts] assms(2)
  have "(\<forall>r\<in>set (fst (requests_A ?s' ip ts)). allowed r)
       \<and> snd (requests_A ?s' ip ts) ip = Some \<lparr>count_A = 1 + int (length ts), timestamp = t0\<rparr>"
    by simp
  with step show "\<forall>r\<in>set (fst (requests_A sA ip (t0 # ts))). allowed r"
    and "snd (requests_A sA ip (t0 # ts)) ip
           = Some \<lparr>count_A = int (length (t0 # ts)), timestamp = t0\<rparr>"
    by (simp_all add: split_beta)
qed

lemma requests_B_new_window:
  assumes "sB ip = None \<or> (\<exists>rec. sB ip = Some rec \<and> RATE_WINDOW < t0 - windowStart rec)"
    and "\<forall>t\<in>set ts. t - t0 \<le> RATE_WINDOW"
    and "int (length (t0 # ts)) \<le> RATE_LIMIT"
  shows "\<forall>r\<in>set (fst (requests_B sB ip (t0 # ts))). r"
    and "snd (requests_B sB ip (t0 # ts)) ip
           = Some \<lparr>windowStart = t0, count_B = int (length (t0 # ts))\<rparr>"
proof -
  let ?s' = "sB(ip \<mapsto> \<lparr>windowStart = t0, count_B = 1\<rparr>)"
  have step: "checkRateLimit_B sB ip t0 = (True, ?s')"
    using assms(1) by (auto simp: checkRateLimit_B_def split: option.splits)
  have "1 + int (length ts) \<le> RATE_LIMIT" using assms(3) by simp
  with requests_B_in_window [of ?s' ip t0 1 ts] assms(2)
  have "(\<forall>r\<in>set (fst (requests_B ?s' ip ts)). r)
       \<and> snd (requests_B ?s' ip ts) ip = Some \<lparr>windowStart = t0, count_B = 1 + int (length ts)\<rparr>"
    by auto
  with step show "\<forall>r\<in>set (fst (requests_B sB ip (t0 # ts))). r"
    and "snd (requests_B sB ip (t0 # ts)) ip
           = Some \<lparr>windowStart = t0, count_B = int (length (t0 # ts))\<rparr>"
    by (auto simp: split_beta)
qed

text \<open>What the limiter answers to a client whose count has reached the limit.\<close>

lemma checkRateLimit_A_at_limit:
  assumes "s ip = Some \<lparr>count_A = RATE_LIMIT, timestamp = t0\<rparr>" and "t - t0 \<le> RATE_WINDOW"
  shows "checkRateLimit_A s ip t =
           (\<lparr>allowed = False, remaining = 0, resetAt = Some (t0 + RATE_WINDOW)\<rparr>, s)"
  using assms by (simp add: checkRateLimit_A_def)

lemma checkRateLimit_B_at_limit:
  assumes "s ip = Some \<lparr>windowStart = t0, count_B = RATE_LIMIT\<rparr>" and "t - t0 \<le> RATE_WINDOW"
  shows "checkRateLimit_B s ip t = (False, s)"
  using assms by (simp add: checkRateLimit_B_def)

text \<open>
  C4, as stated, fails at the end of the window. A client sends 1000 requests at time 0
  and a further one at time 60000. The window is not yet "older than its length", so the
  request is rejected; the reset time it is given is 60000, the current time itself, and
  \<open>Retry-After\<close> is 0.
\<close>

theorem reset_time_counterexample:
  "list_all allowed (fst (requests_A Map.empty (js ''203.0.113.7'') (replicate 1000 0)))
   \<and> onRequest_A sample_context
        (snd (requests_A Map.empty (js ''203.0.113.7'') (replicate 1000 0)))
      = (Inr \<lparr>status = 429,
               headers = json_headers
                 @ [(js ''X-RateLimit-Limit'', js ''1000''),
                    (js ''X-RateLimit-Remaining'', js ''0''),
                    (js ''X-RateLimit-Reset'', js ''60000''),
                    (js ''Retry-After'', js ''0'')]
                 @ getCorsHeaders_A sample_request,
               body = JsonObject [(js ''error'', JString (js ''Rate limit exceeded'')),
                                  (js ''resetAt'', JNumber 60000)]\<rparr>,
         snd (requests_A Map.empty (js ''203.0.113.7'') (replicate 1000 0)), [])
   \<and> Date_now sample_context 0 = 60000"
proof -
  let ?ip = "js ''203.0.113.7''"
  let ?s = "snd (requests_A Map.empty ?ip (replicate 1000 0))"
  have r: "replicate 1000 (0::int) = 0 # replicate 999 0"
    by (simp add: replicate_Suc [symmetric] del: replicate_Suc)
  have a: "(Map.empty :: store_A) ?ip = None
            \<or> (\<exists>rec. (Map.empty :: store_A) ?ip = Some rec \<and> RATE_WINDOW < 0 - timestamp rec)"
    by simp
  have b: "\<forall>t\<in>set (replicate 999 (0::int)). t - 0 \<le> RATE_WINDOW"
    by (simp add: RATE_WINDOW_def)
  have c: "int (length (0 # replicate 999 (0::int))) \<le> RATE_LIMIT"
    by (simp add: RATE_LIMIT_def)
  have all: "list_all allowed (fst (requests_A Map.empty ?ip (replicate 1000 0)))"
    using requests_A_new_window(1) [OF a b c] r by (simp add: list_all_iff)
  have "?s ?ip = Some \<lparr>count_A = int (length (0 # replicate 999 (0::int))), timestamp = 0\<rparr>"
    using requests_A_new_window(2) [OF a b c] r by simp
  then have st: "?s ?ip = Some \<lparr>count_A = RATE_LIMIT, timestamp = 0\<rparr>"
    by (simp add: RATE_LIMIT_def)
  have lim: "checkRateLimit_A ?s ?ip 60000 =
           (\<lparr>allowed = False, remaining = 0, resetAt = Some (0 + RATE_WINDOW)\<rparr>, ?s)"
    using st by (rule checkRateLimit_A_at_limit) (simp add: RATE_WINDOW_def)
  have t: "toString (ceil_div_1000 (60000 - 60000)) = js ''0''" "toString 60000 = js ''60000''"
    by (simp_all add: toString_def ceil_div_1000_def digits.simps)
  have meth: "req_method sample_request = js ''GET''"
    by (simp add: sample_request_def)
  have "onRequest_A sample_context ?s
      = (Inr \<lparr>status = 429,
               headers = json_headers
                 @ [(js ''X-RateLimit-Limit'', js ''1000''),
                    (js ''X-RateLimit-Remaining'', js ''0''),
                    (js ''X-RateLimit-Reset'', js ''60000''),
                    (js ''Retry-After'', js ''0'')]
                 @ getCorsHeaders_A sample_request,
               body = JsonObject [(js ''error'', JString (js ''Rate limit exceeded'')),
                                  (js ''resetAt'', JNumber 60000)]\<rparr>, ?s, [])"
    using lim t meth toString_RATE_LIMIT
    by (simp add: onRequest_A_def sample_context_def sample_key_A error_A_def Response_def
          Let_def RATE_WINDOW_def)
  moreover have "Date_now sample_context 0 = 60000"
    by (simp add: sample_context_def)
  ultimately show ?thesis using all by blast
qed

text \<open>
  C4, amended. Let a client's request at time \<open>t0\<close> open a window (it has no record, or its
  record is older than the window length), and let it send further requests at times \<open>ts\<close>,
  none later than \<open>t0 + RATE_WINDOW\<close>, at most \<open>RATE_LIMIT\<close> requests in all. Then the limiter
  allows every one of them. If they are exactly \<open>RATE_LIMIT\<close>, its next request within the
  same window is answered 429 (in the path-segment variant when the token is configured):
  the path-segment variant reports \<open>resetAt = t0 + RATE_WINDOW\<close>, which is not earlier than
  the current time; the query-parameter variant reports no reset time.
\<close>

theorem limit_within_window:
  assumes "sA ip = None \<or> (\<exists>rec. sA ip = Some rec \<and> RATE_WINDOW < t0 - timestamp rec)"
    and "sB ip = None \<or> (\<exists>rec. sB ip = Some rec \<and> RATE_WINDOW < t0 - windowStart rec)"
    and "\<forall>t\<in>set ts. t - t0 \<le> RATE_WINDOW"
    and "int (length (t0 # ts)) \<le> RATE_LIMIT"
  shows "(\<forall>r\<in>set (fst (requests_A sA ip (t0 # ts))). allowed r)
       \<and> (\<forall>r\<in>set (fst (requests_B sB ip (t0 # ts))). r)
       \<and> (int (length (t0 # ts)) = RATE_LIMIT \<and> Date_now ctx 0 - t0 \<le> RATE_WINDOW
           \<and> req_method (request ctx) \<noteq> js ''OPTIONS'' \<longrightarrow>
            (truthy (AIRTABLE_TOKEN ctx) \<and> getRateLimitKey (request ctx) = ip \<longrightarrow>
               (\<exists>hs. onRequest_A ctx (snd (requests_A sA ip (t0 # ts)))
                  = (Inr \<lparr>status = 429, headers = hs,
                           body = JsonObject
                                    [(js ''error'', JString (js ''Rate limit exceeded'')),
                                     (js ''resetAt'', JNumber (t0 + RATE_WINDOW))]\<rparr>,
                     snd (requests_A sA ip (t0 # ts)), []))
               \<and> Date_now ctx 0 \<le> t0 + RATE_WINDOW)
          \<and> ((req_method (request ctx) = js ''GET''
                 \<or> or_default (header (request ctx) (js ''Origin'')) [] \<in> set ALLOWED_ORIGINS_B)
               \<and> clientIP_B (request ctx) = ip \<longrightarrow>
               (\<exists>hs. onRequest_B ctx (snd (requests_B sB ip (t0 # ts)))
                  = (Inr \<lparr>status = 429, headers = hs,
                           body = JsonObject
                                    [(js ''error'',
                                      JString (js ''Rate limit exceeded. Max 1000 requests per minute.''))]\<rparr>,
                     snd (requests_B sB ip (t0 # ts)), []))))"
proof (intro conjI impI)
  show "\<forall>r\<in>set (fst (requests_A sA ip (t0 # ts))). allowed r"
    using assms(1,3,4) by (rule requests_A_new_window(1))
  show "\<forall>r\<in>set (fst (requests_B sB ip (t0 # ts))). r"
    using assms(2,3,4) by (rule requests_B_new_window(1))
next
  assume full: "int (length (t0 # ts)) = RATE_LIMIT \<and> Date_now ctx 0 - t0 \<le> RATE_WINDOW
           \<and> req_method (request ctx) \<noteq> js ''OPTIONS''"
  assume req: "truthy (AIRTABLE_TOKEN ctx) \<and> getRateLimitKey (request ctx) = ip"
  let ?s = "snd (requests_A sA ip (t0 # ts))"
  have "?s ip = Some \<lparr>count_A = RATE_LIMIT, timestamp = t0\<rparr>"
    using requests_A_new_window(2) [of sA ip t0 ts] assms(1,3,4) full by simp
  then have "checkRateLimit_A ?s ip (Date_now ctx 0) =
           (\<lparr>allowed = False, remaining = 0, resetAt = Some (t0 + RATE_WINDOW)\<rparr>, ?s)"
    using full by (simp add: checkRateLimit_A_at_limit)
  then show "\<exists>hs. onRequest_A ctx ?s
                  = (Inr \<lparr>status = 429, headers = hs,
                           body = JsonObject
                                    [(js ''error'', JString (js ''Rate limit exceeded'')),
                                     (js ''resetAt'', JNumber (t0 + RATE_WINDOW))]\<rparr>,
                     ?s, [])"
    using full req by (simp add: onRequest_A_def error_A_def Response_def Let_def)
  show "Date_now ctx 0 \<le> t0 + RATE_WINDOW"
    using full by simp
next
  assume full: "int (length (t0 # ts)) = RATE_LIMIT \<and> Date_now ctx 0 - t0 \<le> RATE_WINDOW
           \<and> req_method (request ctx) \<noteq> js ''OPTIONS''"
  assume req: "(req_method (request ctx) = js ''GET''
                 \<or> or_default (header (request ctx) (js ''Origin'')) [] \<in> set ALLOWED_ORIGINS_B)
               \<and> clientIP_B (request ctx) = ip"
  let ?s = "snd (requests_B sB ip (t0 # ts))"
  have "?s ip = Some \<lparr>windowStart = t0, count_B = RATE_LIMIT\<rparr>"
    using requests_B_new_window(2) [of sB ip t0 ts] assms(2,3,4) full by simp
  then have "checkRateLimit_B ?s ip (Date_now ctx 0) = (False, ?s)"
    using full by (simp add: checkRateLimit_B_at_limit)
  then show "\<exists>hs. onRequest_B ctx ?s
                  = (Inr \<lparr>status = 429, headers = hs,
                           body = JsonObject
                                    [(js ''error'',
                                      JString (js ''Rate limit exceeded. Max 1000 requests per minute.''))]\<rparr>,
                     ?s, [])"
    using full req by (auto simp: onRequest_B_def error_B_def Response_def Let_def)
qed

text \<open>
  A thousand requests at time 0 from a client without a record, and the sample request
  from the same client at 60000.
\<close>

theorem limit_within_window_witness:
  "list_all allowed (fst (requests_A Map.empty (js ''203.0.113.7'') (0 # replicate 999 0)))
   \<and> list_all id (fst (requests_B Map.empty (js ''203.0.113.7'') (0 # replicate 999 0)))
   \<and> (\<exists>hs. onRequest_A sample_context
              (snd (requests_A Map.empty (js ''203.0.113.7'') (0 # replicate 999 0)))
        = (Inr \<lparr>status = 429, headers = hs,
                 body = JsonObject [(js ''error'', JString (js ''Rate limit exceeded'')),
                                    (js ''resetAt'', JNumber (0 + RATE_WINDOW))]\<rparr>,
           snd (requests_A Map.empty (js ''203.0.113.7'') (0 # replicate 999 0)), []))
   \<and> (\<exists>hs. onRequest_B sample_context
              (snd (requests_B Map.empty (js ''203.0.113.7'') (0 # replicate 999 0)))
        = (Inr \<lparr>status = 429, headers = hs,
                 body = JsonObject
                          [(js ''error'',
                            JString (js ''Rate limit exceeded. Max 1000 requests per minute.''))]\<rparr>,
           snd (requests_B Map.empty (js ''203.0.113.7'') (0 # replicate 999 0)), []))"
proof -
  let ?ip = "js ''203.0.113.7''"
  have a: "(Map.empty :: store_A) ?ip = None
            \<or> (\<exists>rec. (Map.empty :: store_A) ?ip = Some rec \<and> RATE_WINDOW < 0 - timestamp rec)"
    by simp
  have a': "(Map.empty :: store_B) ?ip = None
            \<or> (\<exists>rec. (Map.empty :: store_B) ?ip = Some rec \<and> RATE_WINDOW < 0 - windowStart rec)"
    by simp
  have b: "\<forall>t\<in>set (replicate 999 (0::int)). t - 0 \<le> RATE_WINDOW"
    by (simp add: RATE_WINDOW_def)
  have c: "int (length (0 # replicate 999 (0::int))) \<le> RATE_LIMIT"
    by (simp add: RATE_LIMIT_def)
  have full: "int (length (0 # replicate 999 (0::int))) = RATE_LIMIT
           \<and> Date_now sample_context 0 - 0 \<le> RATE_WINDOW
           \<and> req_method (request sample_context) \<noteq> js ''OPTIONS''"
    by (simp add: RATE_LIMIT_def RATE_WINDOW_def sample_context_def sample_request_def)
  have reqA: "truthy (AIRTABLE_TOKEN sample_context) \<and> getRateLimitKey (request sample_context) = ?ip"
    by (simp add: sample_context_def sample_key_A)
  have reqB: "(req_method (request sample_context) = js ''GET''
                 \<or> or_default (header (request sample_context) (js ''Origin'')) []
                      \<in> set ALLOWED_ORIGINS_B)
               \<and> clientIP_B (request sample_context) = ?ip"
    by (simp add: sample_context_def sample_key_B) (simp add: sample_request_def)
  from limit_within_window
         [where sA = Map.empty and sB = Map.empty and ip = ?ip and ?t0.0 = 0
            and ts = "replicate 999 0" and ctx = sample_context, OF a a' b c]
       full reqA reqB
  show ?thesis unfolding list_all_iff id_apply by blast
qed

section \<open>Orchestration of the handler\<close>

text \<open>
  C6. An \<open>OPTIONS\<close> request is answered at once in both variants: status 204, no body, the
  headers \<open>getCorsHeaders\<close> computes (which always include the methods, headers and max-age
  entries), the rate-limit map as it was and no upstream call. Neither the origin, nor the
  path, nor the token, nor the clock, nor the state of the map enters the answer's status,
  body or effects.
\<close>

theorem preflight_short_circuit:
  assumes "req_method (request ctx) = js ''OPTIONS''"
  shows "onRequest_A ctx sA =
           (Inr \<lparr>status = 204, headers = getCorsHeaders_A (request ctx), body = NullBody\<rparr>, sA, [])
       \<and> onRequest_B ctx sB =
           (Inr \<lparr>status = 204,
                 headers = getCorsHeaders_B (or_default (header (request ctx) (js ''Origin'')) []),
                 body = NullBody\<rparr>, sB, [])
       \<and> {js ''Access-Control-Allow-Methods'', js ''Access-Control-Allow-Headers'',
           js ''Access-Control-Max-Age''}
             \<subseteq> fst ` set (getCorsHeaders_A (request ctx))
       \<and> {js ''Access-Control-Allow-Origin'', js ''Access-Control-Allow-Methods'',
           js ''Access-Control-Allow-Headers'', js ''Access-Control-Max-Age''}
             \<subseteq> fst ` set (getCorsHeaders_B (or_default (header (request ctx) (js ''Origin'')) []))"
proof (intro conjI)
  show "onRequest_A ctx sA =
           (Inr \<lparr>status = 204, headers = getCorsHeaders_A (request ctx), body = NullBody\<rparr>, sA, [])"
    using assms by (simp add: onRequest_A_def Response_def Let_def)
  show "onRequest_B ctx sB =
           (Inr \<lparr>status = 204,
                 headers = getCorsHeaders_B (or_default (header (request ctx) (js ''Origin'')) []),
                 body = NullBody\<rparr>, sB, [])"
    using assms by (simp add: onRequest_B_def Response_def Let_def)
  show "{js ''Access-Control-Allow-Methods'', js ''Access-Control-Allow-Headers'',
           js ''Access-Control-Max-Age''}
             \<subseteq> fst ` set (getCorsHeaders_A (request ctx))"
    by (simp add: getCorsHeaders_A_def)
  show "{js ''Access-Control-Allow-Origin'', js ''Access-Control-Allow-Methods'',
           js ''Access-Control-Allow-Headers'', js ''Access-Control-Max-Age''}
             \<subseteq> fst ` set (getCorsHeaders_B (or_default (header (request ctx) (js ''Origin'')) []))"
    by (simp add: getCorsHeaders_B_def)
qed

text \<open>
  A preflight from an origin that is not on the list, for a path that is not allowed, with
  no token configured and the client's counter at the limit.
\<close>

theorem preflight_short_circuit_witness:
  "onRequest_A
     \<lparr>request = sample_request\<lparr>req_method := js ''OPTIONS'',
          header := [js ''CF-Connecting-IP'' \<mapsto> js ''203.0.113.7'', js ''Origin'' \<mapsto> js ''https://evil.example''],
          pathname := js ''/api/airtable/appOther/Clients2''\<rparr>,
      AIRTABLE_TOKEN = None, Date_now = (\<lambda>k. 10),
      fetch = (\<lambda>c. Rejected (js ''connection refused''))\<rparr>
     [js ''203.0.113.7'' \<mapsto> \<lparr>count_A = 1000, timestamp = 0\<rparr>]
   = (Inr \<lparr>status = 204,
           headers =
             [(js ''Access-Control-Allow-Methods'', js ''GET, POST, PATCH, DELETE, OPTIONS''),
              (js ''Access-Control-Allow-Headers'', js ''Content-Type, Authorization, X-Requested-With''),
              (js ''Access-Control-Max-Age'', js ''86400'')],
           body = NullBody\<rparr>,
      [js ''203.0.113.7'' \<mapsto> \<lparr>count_A = 1000, timestamp = 0\<rparr>], [])
   \<and> onRequest_B
     \<lparr>request = sample_request\<lparr>req_method := js ''OPTIONS'',
          header := [js ''CF-Connecting-IP'' \<mapsto> js ''203.0.113.7'', js ''Origin'' \<mapsto> js ''https://evil.example''],
          pathname := js ''/api/airtable/appOther/Clients2''\<rparr>,
      AIRTABLE_TOKEN = None, Date_now = (\<lambda>k. 10),
      fetch = (\<lambda>c. Rejected (js ''connection refused''))\<rparr>
     [js ''203.0.113.7'' \<mapsto> \<lparr>windowStart = 0, count_B = 1000\<rparr>]
   = (Inr \<lparr>status = 204,
           headers =
             [(js ''Access-Control-Allow-Origin'', js ''https://prioai.ca''),
              (js ''Access-Control-Allow-Methods'', js ''GET, POST, PATCH, DELETE, OPTIONS''),
              (js ''Access-Control-Allow-Headers'', js ''Content-Type''),
              (js ''Access-Control-Max-Age'', js ''86400'')],
           body = NullBody\<rparr>,
      [js ''203.0.113.7'' \<mapsto> \<lparr>windowStart = 0, count_B = 1000\<rparr>], [])"
proof -
  let ?ctx = "\<lparr>request = sample_request\<lparr>req_method := js ''OPTIONS'',
          header := [js ''CF-Connecting-IP'' \<mapsto> js ''203.0.113.7'', js ''Origin'' \<mapsto> js ''https://evil.example''],
          pathname := js ''/api/airtable/appOther/Clients2''\<rparr>,
      AIRTABLE_TOKEN = None, Date_now = (\<lambda>k. 10),
      fetch = (\<lambda>c. Rejected (js ''connection refused''))\<rparr> :: unit event_context"
  have h: "req_method (request ?ctx) = js ''OPTIONS''"
    by (simp add: sample_request_def)
  show ?thesis
    using preflight_short_circuit
            [OF h, of "[js ''203.0.113.7'' \<mapsto> \<lparr>count_A = 1000, timestamp = 0\<rparr>]"
                      "[js ''203.0.113.7'' \<mapsto> \<lparr>windowStart = 0, count_B = 1000\<rparr>]"]
    by (simp add: getCorsHeaders_A_def getCorsHeaders_B_def sample_request_def
          ALLOWED_ORIGINS_A_def ALLOWED_ORIGINS_B_def or_default_def)
qed

text \<open>
  C2, as stated, fails in the query-parameter variant, which consults the limiter before
  it looks at the token: a first \<open>GET\<close> without a configured token is answered 500, and
  the client's record has been created.
\<close>

theorem missing_token_counterexample:
  "onRequest_B (sample_context\<lparr>AIRTABLE_TOKEN := None\<rparr>) Map.empty =
     (Inr \<lparr>status = 500,
           headers = getCorsHeaders_B [] @ json_headers,
           body = JsonObject [(js ''error'', JString (js ''Server configuration error''))]\<rparr>,
      [js ''203.0.113.7'' \<mapsto> \<lparr>windowStart = 60000, count_B = 1\<rparr>], [])
   \<and> [js ''203.0.113.7'' \<mapsto> \<lparr>windowStart = 60000, count_B = 1\<rparr>] \<noteq> Map.empty"
proof -
  have "checkRateLimit_B Map.empty (js ''203.0.113.7'') 60000 =
          (True, [js ''203.0.113.7'' \<mapsto> \<lparr>windowStart = 60000, count_B = 1\<rparr>])"
    by (simp add: checkRateLimit_B_def)
  then have "onRequest_B (sample_context\<lparr>AIRTABLE_TOKEN := None\<rparr>) Map.empty =
     (Inr \<lparr>status = 500,
           headers = getCorsHeaders_B [] @ json_headers,
           body = JsonObject [(js ''error'', JString (js ''Server configuration error''))]\<rparr>,
      [js ''203.0.113.7'' \<mapsto> \<lparr>windowStart = 60000, count_B = 1\<rparr>], [])"
    by (simp add: onRequest_B_def sample_context_def sample_key_B error_B_def Response_def
          Let_def)
      (simp add: sample_request_def or_default_def)
  moreover have "[js ''203.0.113.7'' \<mapsto> \<lparr>windowStart = 60000, count_B = 1\<rparr>] \<noteq> Map.empty"
    by simp
  ultimately show ?thesis by simp
qed

text \<open>
  C2, amended. Without a token a non-\<open>OPTIONS\<close> request never reaches the upstream. The
  path-segment variant answers 500 before the limiter is consulted and leaves the
  rate-limit map as it was. The query-parameter variant checks the token after the origin
  check and the limiter: a non-\<open>GET\<close> from an origin off the list is answered 403 with the
  map unchanged; any other request goes through \<open>checkRateLimit\<close>, whose map is kept, and
  is answered 429 if the limiter rejects it and 500 otherwise.
\<close>

theorem missing_token_order:
  assumes "\<not> truthy (AIRTABLE_TOKEN ctx)" and "req_method (request ctx) \<noteq> js ''OPTIONS''"
  shows "onRequest_A ctx sA =
           (Inr \<lparr>status = 500, headers = json_headers @ getCorsHeaders_A (request ctx),
                 body = JsonObject [(js ''error'', JString (js ''Server configuration error''))]\<rparr>,
            sA, [])
       \<and> (req_method (request ctx) \<noteq> js ''GET''
            \<and> or_default (header (request ctx) (js ''Origin'')) [] \<notin> set ALLOWED_ORIGINS_B \<longrightarrow>
          (\<exists>r. onRequest_B ctx sB = (Inr r, sB, []) \<and> status r = 403))
       \<and> (req_method (request ctx) = js ''GET''
            \<or> or_default (header (request ctx) (js ''Origin'')) [] \<in> set ALLOWED_ORIGINS_B \<longrightarrow>
          (\<exists>r. onRequest_B ctx sB =
                  (Inr r, snd (checkRateLimit_B sB (clientIP_B (request ctx)) (Date_now ctx 0)), [])
               \<and> status r =
                   (if fst (checkRateLimit_B sB (clientIP_B (request ctx)) (Date_now ctx 0))
                    then 500 else 429)))"
proof (intro conjI)
  show "onRequest_A ctx sA =
           (Inr \<lparr>status = 500, headers = json_headers @ getCorsHeaders_A (request ctx),
                 body = JsonObject [(js ''error'', JString (js ''Server configuration error''))]\<rparr>,
            sA, [])"
    using assms by (simp add: onRequest_A_def error_A_def Response_def Let_def)
  show "req_method (request ctx) \<noteq> js ''GET''
            \<and> or_default (header (request ctx) (js ''Origin'')) [] \<notin> set ALLOWED_ORIGINS_B \<longrightarrow>
          (\<exists>r. onRequest_B ctx sB = (Inr r, sB, []) \<and> status r = 403)"
    using assms by (auto simp: onRequest_B_def error_B_def Response_def Let_def split_beta)
  show "req_method (request ctx) = js ''GET''
            \<or> or_default (header (request ctx) (js ''Origin'')) [] \<in> set ALLOWED_ORIGINS_B \<longrightarrow>
          (\<exists>r. onRequest_B ctx sB =
                  (Inr r, snd (checkRateLimit_B sB (clientIP_B (request ctx)) (Date_now ctx 0)), [])
               \<and> status r =
                   (if fst (checkRateLimit_B sB (clientIP_B (request ctx)) (Date_now ctx 0))
                    then 500 else 429))"
    using assms by (auto simp: onRequest_B_def error_B_def Response_def Let_def split_beta)
qed

text \<open>
  The sample \<open>GET\<close> without a token, with the client's counter at the limit: 500 and an
  untouched map in the path-segment variant. In the query-parameter variant the same
  \<open>GET\<close> from a new client is answered 500 after its record has been created, and a \<open>POST\<close>
  from an origin off the list is answered 403 with the map unchanged.
\<close>

theorem missing_token_order_witness:
  "onRequest_A (sample_context\<lparr>AIRTABLE_TOKEN := None\<rparr>)
     [js ''203.0.113.7'' \<mapsto> \<lparr>count_A = 1000, timestamp = 0\<rparr>] =
     (Inr \<lparr>status = 500,
           headers = json_headers @ getCorsHeaders_A (request (sample_context\<lparr>AIRTABLE_TOKEN := None\<rparr>)),
           body = JsonObject [(js ''error'', JString (js ''Server configuration error''))]\<rparr>,
      [js ''203.0.113.7'' \<mapsto> \<lparr>count_A = 1000, timestamp = 0\<rparr>], [])
   \<and> (\<exists>r. onRequest_B (sample_context\<lparr>AIRTABLE_TOKEN := None\<rparr>) Map.empty =
            (Inr r, [js ''203.0.113.7'' \<mapsto> \<lparr>windowStart = 60000, count_B = 1\<rparr>], [])
          \<and> status r = 500)
   \<and> (\<exists>r. onRequest_B
              (sample_context\<lparr>AIRTABLE_TOKEN := None,
                 request := sample_request\<lparr>req_method := js ''POST'',
                   header := [js ''Origin'' \<mapsto> js ''https://evil.example'']\<rparr>\<rparr>)
              [js ''203.0.113.7'' \<mapsto> \<lparr>windowStart = 0, count_B = 7\<rparr>] =
            (Inr r, [js ''203.0.113.7'' \<mapsto> \<lparr>windowStart = 0, count_B = 7\<rparr>], [])
          \<and> status r = 403)"
proof -
  let ?ctx = "sample_context\<lparr>AIRTABLE_TOKEN := None\<rparr>"
  let ?post = "sample_context\<lparr>AIRTABLE_TOKEN := None,
                 request := sample_request\<lparr>req_method := js ''POST'',
                   header := [js ''Origin'' \<mapsto> js ''https://evil.example'']\<rparr>\<rparr>"
  have h1: "\<not> truthy (AIRTABLE_TOKEN ?ctx)" "\<not> truthy (AIRTABLE_TOKEN ?post)"
    by simp_all
  have h2: "req_method (request ?ctx) \<noteq> js ''OPTIONS''"
    "req_method (request ?post) \<noteq> js ''OPTIONS''"
    by (simp_all add: sample_context_def sample_request_def)
  have get: "req_method (request ?ctx) = js ''GET''"
    by (simp add: sample_context_def sample_request_def)
  have lim: "checkRateLimit_B Map.empty (clientIP_B (request ?ctx)) (Date_now ?ctx 0) =
      (True, [js ''203.0.113.7'' \<mapsto> \<lparr>windowStart = 60000, count_B = 1\<rparr>])"
    by (simp add: sample_context_def sample_key_B checkRateLimit_B_def)
  have off: "req_method (request ?post) \<noteq> js ''GET''
      \<and> or_default (header (request ?post) (js ''Origin'')) [] \<notin> set ALLOWED_ORIGINS_B"
    by (simp add: sample_request_def or_default_def ALLOWED_ORIGINS_B_def)
  have A: "onRequest_A ?ctx [js ''203.0.113.7'' \<mapsto> \<lparr>count_A = 1000, timestamp = 0\<rparr>] =
     (Inr \<lparr>status = 500, headers = json_headers @ getCorsHeaders_A (request ?ctx),
           body = JsonObject [(js ''error'', JString (js ''Server configuration error''))]\<rparr>,
      [js ''203.0.113.7'' \<mapsto> \<lparr>count_A = 1000, timestamp = 0\<rparr>], [])"
    using missing_token_order [OF h1(1) h2(1)] by blast
  have B1: "\<exists>r. onRequest_B ?ctx Map.empty =
            (Inr r, [js ''203.0.113.7'' \<mapsto> \<lparr>windowStart = 60000, count_B = 1\<rparr>], [])
          \<and> status r = 500"
    using missing_token_order [OF h1(1) h2(1), of _ Map.empty] get lim by simp
  have B2: "\<exists>r. onRequest_B ?post [js ''203.0.113.7'' \<mapsto> \<lparr>windowStart = 0, count_B = 7\<rparr>] =
            (Inr r, [js ''203.0.113.7'' \<mapsto> \<lparr>windowStart = 0, count_B = 7\<rparr>], [])
          \<and> status r = 403"
    using missing_token_order [OF h1(2) h2(2)] off by blast
  from A B1 B2 show ?thesis by blast
qed

section \<open>Response headers\<close>

lemma relay_A_headers:
  assumes "relay_A ctx rl c = Inr resp"
  shows "set (getCorsHeaders_A (request ctx)) \<subseteq> set (headers resp)"
    and "body resp = JsonValue d \<Longrightarrow>
           {(js ''X-RateLimit-Limit'', toString RATE_LIMIT),
            (js ''X-RateLimit-Remaining'', toString (remaining rl))} \<subseteq> set (headers resp)"
  using assms
  by (auto simp: relay_A_def failed_A_def error_A_def Response_def Let_def
           split: fetch_result.splits sum.splits if_splits)

lemma relay_B_headers:
  assumes "relay_B ctx cors c = Inr resp"
  shows "set cors \<subseteq> set (headers resp)"
  using assms
  by (auto simp: relay_B_def error_B_def Response_def Let_def
           split: fetch_result.splits sum.splits if_splits)

lemma onRequest_A_headers:
  assumes "fst (onRequest_A ctx sA) = Inr resp"
  shows "set (getCorsHeaders_A (request ctx)) \<subseteq> set (headers resp)"
    and "body resp = JsonValue d \<Longrightarrow>
           {(js ''X-RateLimit-Limit'', toString RATE_LIMIT),
            (js ''X-RateLimit-Remaining'',
               toString (remaining (fst (checkRateLimit_A sA (getRateLimitKey (request ctx))
                                           (Date_now ctx 0)))))} \<subseteq> set (headers resp)"
proof -
  show "set (getCorsHeaders_A (request ctx)) \<subseteq> set (headers resp)"
  proof (cases "snd (snd (onRequest_A ctx sA))")
    case Nil
    with assms show ?thesis
      by (auto simp: onRequest_A_def error_A_def Response_def Let_def split_beta
               split: if_splits option.splits validation_A.splits sum.splits)
  next
    case (Cons c cs)
    then have "c \<in> set (snd (snd (onRequest_A ctx sA)))" by simp
    from onRequest_A_result [OF this] assms relay_A_headers(1) show ?thesis
      by fastforce
  qed
  assume j: "body resp = JsonValue d"
  show "{(js ''X-RateLimit-Limit'', toString RATE_LIMIT),
            (js ''X-RateLimit-Remaining'',
               toString (remaining (fst (checkRateLimit_A sA (getRateLimitKey (request ctx))
                                           (Date_now ctx 0)))))} \<subseteq> set (headers resp)"
  proof (cases "snd (snd (onRequest_A ctx sA))")
    case Nil
    with assms j show ?thesis
      by (auto simp: onRequest_A_def error_A_def Response_def Let_def split_beta
               split: if_splits option.splits validation_A.splits sum.splits)
  next
    case (Cons c cs)
    then have "c \<in> set (snd (snd (onRequest_A ctx sA)))" by simp
    from onRequest_A_result [OF this] assms
    have "relay_A ctx (fst (checkRateLimit_A sA (getRateLimitKey (request ctx)) (Date_now ctx 0))) c
            = Inr resp"
      by simp
    from relay_A_headers(2) [OF this j] show ?thesis .
  qed
qed

lemma onRequest_B_headers:
  assumes "fst (onRequest_B ctx sB) = Inr resp"
  shows "set (getCorsHeaders_B (or_default (header (request ctx) (js ''Origin'')) []))
           \<subseteq> set (headers resp)"
proof (cases "snd (snd (onRequest_B ctx sB))")
  case Nil
  with assms show ?thesis
    by (auto simp: onRequest_B_def error_B_def Response_def Let_def split_beta
             split: if_splits sum.splits validation_B.splits)
next
  case (Cons c cs)
  then have "c \<in> set (snd (snd (onRequest_B ctx sB)))" by simp
  from onRequest_B_result [OF this] assms
  have "relay_B ctx (getCorsHeaders_B (or_default (header (request ctx) (js ''Origin'')) [])) c
          = Inr resp"
    by simp
  then show ?thesis by (rule relay_B_headers)
qed

text \<open>
  C5, as stated, fails: the query-parameter variant has no \<open>X-RateLimit\<close> headers at all.
  When it relays an upstream 200, the response carries the CORS headers and the content
  type only.
\<close>

theorem rate_limit_headers_counterexample:
  "fst (onRequest_B (sample_context\<lparr>fetch := upstream_empty_list\<rparr>) Map.empty)
     = Inr \<lparr>status = 200, headers = getCorsHeaders_B [] @ json_headers,
             body = Text (js ''{\"records\":[]}'')\<rparr>
   \<and> js ''X-RateLimit-Limit'' \<notin> fst ` set (getCorsHeaders_B [] @ json_headers)
   \<and> js ''X-RateLimit-Remaining'' \<notin> fst ` set (getCorsHeaders_B [] @ json_headers)"
proof -
  let ?ctx = "sample_context\<lparr>fetch := upstream_empty_list\<rparr>"
  have lim: "checkRateLimit_B Map.empty (js ''203.0.113.7'') 60000 =
      (True, [js ''203.0.113.7'' \<mapsto> \<lparr>windowStart = 60000, count_B = 1\<rparr>])"
    by (simp add: checkRateLimit_B_def)
  have v: "validatePath_B (map_of (searchParams sample_request) (js ''path'')) = Inr Valid_B"
    by code_simp
  have meth: "req_method sample_request = js ''GET''"
    by (simp add: sample_request_def)
  have org: "header sample_request (js ''Origin'') = None"
    by (simp add: sample_request_def)
  have "fst (onRequest_B ?ctx Map.empty)
     = Inr \<lparr>status = 200, headers = getCorsHeaders_B [] @ json_headers,
             body = Text (js ''{\"records\":[]}'')\<rparr>"
    using lim v meth org
    by (simp add: onRequest_B_def sample_context_def sample_key_B relay_B_def Response_def
          or_default_def upstream_empty_list_def Let_def)
  moreover have "js ''X-RateLimit-Limit'' \<notin> fst ` set (getCorsHeaders_B [] @ json_headers)"
    "js ''X-RateLimit-Remaining'' \<notin> fst ` set (getCorsHeaders_B [] @ json_headers)"
    by (simp_all add: getCorsHeaders_B_def json_headers_def)
  ultimately show ?thesis by simp
qed

text \<open>
  C5, amended. Every response of either variant carries the headers that the variant's
  \<open>getCorsHeaders\<close> computes for the request. In the path-segment variant a response that
  relays the upstream payload carries \<open>X-RateLimit-Limit\<close> (1000) and
  \<open>X-RateLimit-Remaining\<close> (what the limiter reported), and the 429 that the limiter causes
  carries \<open>X-RateLimit-Limit\<close>, \<open>X-RateLimit-Remaining\<close> (0), \<open>X-RateLimit-Reset\<close> (the reset
  time) and \<open>Retry-After\<close>, the seconds from the second clock reading to the reset time,
  rounded up. In the query-parameter variant the 429 that the limiter causes carries
  \<open>Retry-After: 60\<close>.
\<close>

theorem rate_limit_headers:
  "(fst (onRequest_A ctx sA) = Inr resp \<longrightarrow>
      set (getCorsHeaders_A (request ctx)) \<subseteq> set (headers resp)
      \<and> (body resp = JsonValue d \<longrightarrow>
           {(js ''X-RateLimit-Limit'', js ''1000''),
            (js ''X-RateLimit-Remaining'',
               toString (remaining (fst (checkRateLimit_A sA (getRateLimitKey (request ctx))
                                           (Date_now ctx 0)))))} \<subseteq> set (headers resp)))
   \<and> (req_method (request ctx) \<noteq> js ''OPTIONS'' \<and> truthy (AIRTABLE_TOKEN ctx)
        \<and> checkRateLimit_A sA (getRateLimitKey (request ctx)) (Date_now ctx 0)
            = (\<lparr>allowed = False, remaining = 0, resetAt = Some reset\<rparr>, sA) \<longrightarrow>
      (\<exists>r. fst (onRequest_A ctx sA) = Inr r \<and> status r = 429
           \<and> {(js ''X-RateLimit-Limit'', js ''1000''),
               (js ''X-RateLimit-Remaining'', js ''0''),
               (js ''X-RateLimit-Reset'', toString reset),
               (js ''Retry-After'', toString (ceil_div_1000 (reset - Date_now ctx 1)))}
                \<subseteq> set (headers r)))
   \<and> (fst (onRequest_B ctx sB) = Inr resp' \<longrightarrow>
      set (getCorsHeaders_B (or_default (header (request ctx) (js ''Origin'')) []))
        \<subseteq> set (headers resp'))
   \<and> (req_method (request ctx) \<noteq> js ''OPTIONS''
        \<and> (req_method (request ctx) = js ''GET''
             \<or> or_default (header (request ctx) (js ''Origin'')) [] \<in> set ALLOWED_ORIGINS_B)
        \<and> \<not> fst (checkRateLimit_B sB (clientIP_B (request ctx)) (Date_now ctx 0)) \<longrightarrow>
      (\<exists>r. fst (onRequest_B ctx sB) = Inr r \<and> status r = 429
           \<and> (js ''Retry-After'', js ''60'') \<in> set (headers r)))"
proof (intro conjI impI)
  assume a: "fst (onRequest_A ctx sA) = Inr resp"
  then show "set (getCorsHeaders_A (request ctx)) \<subseteq> set (headers resp)"
    by (rule onRequest_A_headers(1))
  assume "body resp = JsonValue d"
  with a show "{(js ''X-RateLimit-Limit'', js ''1000''),
            (js ''X-RateLimit-Remaining'',
               toString (remaining (fst (checkRateLimit_A sA (getRateLimitKey (request ctx))
                                           (Date_now ctx 0)))))} \<subseteq> set (headers resp)"
    using onRequest_A_headers(2) [of ctx sA resp d] toString_RATE_LIMIT by simp
next
  assume "req_method (request ctx) \<noteq> js ''OPTIONS'' \<and> truthy (AIRTABLE_TOKEN ctx)
        \<and> checkRateLimit_A sA (getRateLimitKey (request ctx)) (Date_now ctx 0)
            = (\<lparr>allowed = False, remaining = 0, resetAt = Some reset\<rparr>, sA)"
  then show "\<exists>r. fst (onRequest_A ctx sA) = Inr r \<and> status r = 429
           \<and> {(js ''X-RateLimit-Limit'', js ''1000''),
               (js ''X-RateLimit-Remaining'', js ''0''),
               (js ''X-RateLimit-Reset'', toString reset),
               (js ''Retry-After'', toString (ceil_div_1000 (reset - Date_now ctx 1)))}
                \<subseteq> set (headers r)"
    using toString_RATE_LIMIT
    by (simp add: onRequest_A_def error_A_def Response_def Let_def)
next
  assume "fst (onRequest_B ctx sB) = Inr resp'"
  then show "set (getCorsHeaders_B (or_default (header (request ctx) (js ''Origin'')) []))
        \<subseteq> set (headers resp')"
    by (rule onRequest_B_headers)
next
  assume "req_method (request ctx) \<noteq> js ''OPTIONS''
        \<and> (req_method (request ctx) = js ''GET''
             \<or> or_default (header (request ctx) (js ''Origin'')) [] \<in> set ALLOWED_ORIGINS_B)
        \<and> \<not> fst (checkRateLimit_B sB (clientIP_B (request ctx)) (Date_now ctx 0))"
  then show "\<exists>r. fst (onRequest_B ctx sB) = Inr r \<and> status r = 429
           \<and> (js ''Retry-After'', js ''60'') \<in> set (headers r)"
    by (auto simp: onRequest_B_def error_B_def Response_def Let_def split_beta)
qed

text \<open>
  The sample request from a client at the limit, 59.5 s into its window: the limiter's 429
  of the path-segment variant announces a reset at 60500 and a retry after one second, and
  that of the query-parameter variant a retry after 60 seconds. The sample request from a
  new client against an upstream that answers 200: the relayed response of the
  path-segment variant reports the limit and 999 remaining.
\<close>

theorem rate_limit_headers_witness:
  "(\<exists>r. fst (onRequest_A (sample_context\<lparr>Date_now := (\<lambda>k. 60000 + int k)\<rparr>)
               [js ''203.0.113.7'' \<mapsto> \<lparr>count_A = 1000, timestamp = 500\<rparr>]) = Inr r
      \<and> status r = 429
      \<and> {(js ''X-RateLimit-Limit'', js ''1000''), (js ''X-RateLimit-Remaining'', js ''0''),
          (js ''X-RateLimit-Reset'', js ''60500''), (js ''Retry-After'', js ''1'')}
           \<subseteq> set (headers r)
      \<and> set (getCorsHeaders_A sample_request) \<subseteq> set (headers r))
   \<and> (\<exists>r. fst (onRequest_B sample_context
               [js ''203.0.113.7'' \<mapsto> \<lparr>windowStart = 500, count_B = 1000\<rparr>]) = Inr r
      \<and> status r = 429
      \<and> (js ''Retry-After'', js ''60'') \<in> set (headers r)
      \<and> set (getCorsHeaders_B []) \<subseteq> set (headers r))
   \<and> (\<exists>r. fst (onRequest_A (sample_context\<lparr>fetch := upstream_empty_list\<rparr>) Map.empty) = Inr r
      \<and> status r = 200 \<and> body r = JsonValue ()
      \<and> {(js ''X-RateLimit-Limit'', js ''1000''), (js ''X-RateLimit-Remaining'', js ''999'')}
           \<subseteq> set (headers r))"
proof -
  let ?ctx = "sample_context\<lparr>Date_now := (\<lambda>k. 60000 + int k)\<rparr>"
  let ?s = "[js ''203.0.113.7'' \<mapsto> \<lparr>count_A = 1000, timestamp = 500\<rparr>]"
  let ?sB = "[js ''203.0.113.7'' \<mapsto> \<lparr>windowStart = 500, count_B = 1000\<rparr>]"
  let ?up = "sample_context\<lparr>fetch := upstream_empty_list\<rparr>"
  have lim: "checkRateLimit_A ?s (getRateLimitKey (request ?ctx)) (Date_now ?ctx 0)
       = (\<lparr>allowed = False, remaining = 0, resetAt = Some 60500\<rparr>, ?s)"
    by (simp add: sample_context_def sample_key_A checkRateLimit_A_def RATE_LIMIT_def
          RATE_WINDOW_def)
  have h: "req_method (request ?ctx) \<noteq> js ''OPTIONS'' \<and> truthy (AIRTABLE_TOKEN ?ctx)
        \<and> checkRateLimit_A ?s (getRateLimitKey (request ?ctx)) (Date_now ?ctx 0)
            = (\<lparr>allowed = False, remaining = 0, resetAt = Some 60500\<rparr>, ?s)"
    using lim by (simp add: sample_context_def sample_request_def)
  have t1: "toString 60500 = js ''60500''"
    by (simp add: toString_def digits.simps)
  have t2: "toString (ceil_div_1000 (60500 - Date_now ?ctx 1)) = js ''1''"
    by (simp add: toString_def ceil_div_1000_def digits.simps)
  have rq: "request ?ctx = sample_request"
    by (simp add: sample_context_def)
  from rate_limit_headers [of ?ctx ?s _ _ 60500] h t1 t2 rq
  have A: "\<exists>r. fst (onRequest_A ?ctx ?s) = Inr r \<and> status r = 429
      \<and> {(js ''X-RateLimit-Limit'', js ''1000''), (js ''X-RateLimit-Remaining'', js ''0''),
          (js ''X-RateLimit-Reset'', js ''60500''), (js ''Retry-After'', js ''1'')}
           \<subseteq> set (headers r)
      \<and> set (getCorsHeaders_A sample_request) \<subseteq> set (headers r)"
    by (metis (no_types, lifting))
  have hB: "req_method (request sample_context) \<noteq> js ''OPTIONS''
        \<and> (req_method (request sample_context) = js ''GET''
             \<or> or_default (header (request sample_context) (js ''Origin'')) []
                  \<in> set ALLOWED_ORIGINS_B)
        \<and> \<not> fst (checkRateLimit_B ?sB (clientIP_B (request sample_context))
                    (Date_now sample_context 0))"
    by (simp add: sample_context_def sample_key_B checkRateLimit_B_def RATE_LIMIT_def
          RATE_WINDOW_def)
       (simp add: sample_request_def)
  have org: "or_default (header (request sample_context) (js ''Origin'')) [] = []"
    by (simp add: sample_context_def sample_request_def or_default_def)
  from rate_limit_headers [of sample_context _ _ _ _ ?sB] hB org
  have B: "\<exists>r. fst (onRequest_B sample_context ?sB) = Inr r \<and> status r = 429
      \<and> (js ''Retry-After'', js ''60'') \<in> set (headers r)
      \<and> set (getCorsHeaders_B []) \<subseteq> set (headers r)"
    by (metis (no_types, lifting))
  have limU: "checkRateLimit_A Map.empty (js ''203.0.113.7'') 60000 =
      (\<lparr>allowed = True, remaining = 999, resetAt = None\<rparr>,
       [js ''203.0.113.7'' \<mapsto> \<lparr>count_A = 1, timestamp = 60000\<rparr>])"
    by (simp add: checkRateLimit_A_def RATE_LIMIT_def)
  have pm: "pathMatch (pathname sample_request) = Some (js ''appXXXXXXXXXXXXXX/Clients'')"
    by (simp add: sample_request_def pathMatch_def startsWith_def line_terminator_def)
  have vA: "validatePath_A (js ''appXXXXXXXXXXXXXX/Clients'') =
      Valid_A (js ''appXXXXXXXXXXXXXX'') (js ''Clients'') None"
    by code_simp
  have enc: "encodeURIComponent (js ''Clients'') = Inr (js ''Clients'')"
    by code_simp
  have meth: "req_method sample_request = js ''GET''"
    by (simp add: sample_request_def)
  have t3: "toString 999 = js ''999''"
    by (simp add: toString_def digits.simps)
  obtain r where r: "fst (onRequest_A ?up Map.empty) = Inr r" "status r = 200"
      "body r = JsonValue ()"
    using limU pm vA enc meth
    by (simp add: onRequest_A_def sample_context_def sample_key_A relay_A_def
          upstream_empty_list_def Response_def Let_def)
  have rem: "remaining (fst (checkRateLimit_A Map.empty (getRateLimitKey (request ?up))
                              (Date_now ?up 0))) = 999"
    using limU by (simp add: sample_context_def sample_key_A)
  from rate_limit_headers [of ?up Map.empty r "()"] r rem t3
  have "{(js ''X-RateLimit-Limit'', js ''1000''), (js ''X-RateLimit-Remaining'', js ''999'')}
           \<subseteq> set (headers r)"
    by simp
  with r have C: "\<exists>r. fst (onRequest_A ?up Map.empty) = Inr r
      \<and> status r = 200 \<and> body r = JsonValue ()
      \<and> {(js ''X-RateLimit-Limit'', js ''1000''), (js ''X-RateLimit-Remaining'', js ''999'')}
           \<subseteq> set (headers r)"
    by blast
  from A B C show ?thesis by blast
qed

section \<open>The upstream call\<close>

text \<open>
  C8. When the handler has called \<open>fetch\<close> and the call is rejected (a network or transport
  failure; in the query-parameter variant also when reading the response as text is
  rejected), the handler does not throw: it returns one response with status 502 and a fixed
  JSON object (\<open>error\<close>, and in the path-segment variant \<open>details\<close> with the message of the
  caught error), it has made exactly that one call, and the rate-limit map is the one the
  limiter produced when it admitted the request, in which the client's record counts this
  attempt: count 1 for a new window, the old count plus one otherwise.
\<close>

theorem transport_failure_502:
  "(c \<in> set (snd (snd (onRequest_A ctx sA))) \<and> fetch ctx c = Rejected m \<longrightarrow>
      onRequest_A ctx sA =
        (Inr \<lparr>status = 502, headers = json_headers @ getCorsHeaders_A (request ctx),
              body = JsonObject [(js ''error'', JString (js ''Failed to fetch from Airtable'')),
                                 (js ''details'', JMessageOf (FetchError m))]\<rparr>,
         snd (checkRateLimit_A sA (getRateLimitKey (request ctx)) (Date_now ctx 0)), [c])
      \<and> (\<exists>rec. snd (checkRateLimit_A sA (getRateLimitKey (request ctx)) (Date_now ctx 0))
                    (getRateLimitKey (request ctx)) = Some rec
               \<and> count_A rec =
                   (case sA (getRateLimitKey (request ctx)) of
                      None \<Rightarrow> 1
                    | Some old \<Rightarrow>
                        if Date_now ctx 0 - timestamp old > RATE_WINDOW then 1
                        else count_A old + 1)))
   \<and> (c' \<in> set (snd (snd (onRequest_B ctx sB)))
       \<and> (fetch ctx c' = Rejected m'
            \<or> (\<exists>u. fetch ctx c' = Resolved u \<and> upstream_text u = Inl m')) \<longrightarrow>
      onRequest_B ctx sB =
        (Inr \<lparr>status = 502,
              headers = getCorsHeaders_B (or_default (header (request ctx) (js ''Origin'')) [])
                        @ json_headers,
              body = JsonObject [(js ''error'', JString (js ''Failed to fetch from Airtable''))]\<rparr>,
         snd (checkRateLimit_B sB (clientIP_B (request ctx)) (Date_now ctx 0)), [c'])
      \<and> (\<exists>rec. snd (checkRateLimit_B sB (clientIP_B (request ctx)) (Date_now ctx 0))
                    (clientIP_B (request ctx)) = Some rec
               \<and> count_B rec =
                   (case sB (clientIP_B (request ctx)) of
                      None \<Rightarrow> 1
                    | Some old \<Rightarrow>
                        if Date_now ctx 0 - windowStart old > RATE_WINDOW then 1
                        else count_B old + 1)))"
proof (intro conjI impI)
  assume a: "c \<in> set (snd (snd (onRequest_A ctx sA))) \<and> fetch ctx c = Rejected m"
  then show "onRequest_A ctx sA =
        (Inr \<lparr>status = 502, headers = json_headers @ getCorsHeaders_A (request ctx),
              body = JsonObject [(js ''error'', JString (js ''Failed to fetch from Airtable'')),
                                 (js ''details'', JMessageOf (FetchError m))]\<rparr>,
         snd (checkRateLimit_A sA (getRateLimitKey (request ctx)) (Date_now ctx 0)), [c])"
    using onRequest_A_result [of c ctx sA]
    by (simp add: relay_A_def failed_A_def error_A_def Response_def)
  from a have "allowed (fst (checkRateLimit_A sA (getRateLimitKey (request ctx)) (Date_now ctx 0)))"
    using onRequest_A_admitted [of c ctx sA] by simp
  then show "\<exists>rec. snd (checkRateLimit_A sA (getRateLimitKey (request ctx)) (Date_now ctx 0))
                    (getRateLimitKey (request ctx)) = Some rec
               \<and> count_A rec =
                   (case sA (getRateLimitKey (request ctx)) of
                      None \<Rightarrow> 1
                    | Some old \<Rightarrow>
                        if Date_now ctx 0 - timestamp old > RATE_WINDOW then 1
                        else count_A old + 1)"
    by (auto simp: checkRateLimit_A_def split: option.splits if_splits)
next
  assume b: "c' \<in> set (snd (snd (onRequest_B ctx sB)))
       \<and> (fetch ctx c' = Rejected m'
            \<or> (\<exists>u. fetch ctx c' = Resolved u \<and> upstream_text u = Inl m'))"
  then show "onRequest_B ctx sB =
        (Inr \<lparr>status = 502,
              headers = getCorsHeaders_B (or_default (header (request ctx) (js ''Origin'')) [])
                        @ json_headers,
              body = JsonObject [(js ''error'', JString (js ''Failed to fetch from Airtable''))]\<rparr>,
         snd (checkRateLimit_B sB (clientIP_B (request ctx)) (Date_now ctx 0)), [c'])"
    using onRequest_B_result [of c' ctx sB]
    by (auto simp: relay_B_def error_B_def Response_def)
  from b have "fst (checkRateLimit_B sB (clientIP_B (request ctx)) (Date_now ctx 0))"
    using onRequest_B_reaches_upstream(3) [of c' ctx sB] by simp
  then show "\<exists>rec. snd (checkRateLimit_B sB (clientIP_B (request ctx)) (Date_now ctx 0))
                    (clientIP_B (request ctx)) = Some rec
               \<and> count_B rec =
                   (case sB (clientIP_B (request ctx)) of
                      None \<Rightarrow> 1
                    | Some old \<Rightarrow>
                        if Date_now ctx 0 - windowStart old > RATE_WINDOW then 1
                        else count_B old + 1)"
    by (auto simp: checkRateLimit_B_def split: option.splits if_splits)
qed

text \<open>
  The sample request against an upstream that refuses the connection, from a client with
  41 requests in the current window: one call, 502, and a count of 42 in both variants.
\<close>

theorem transport_failure_502_witness:
  "onRequest_A sample_context [js ''203.0.113.7'' \<mapsto> \<lparr>count_A = 41, timestamp = 1000\<rparr>] =
     (Inr \<lparr>status = 502, headers = json_headers @ getCorsHeaders_A sample_request,
           body = JsonObject [(js ''error'', JString (js ''Failed to fetch from Airtable'')),
                              (js ''details'', JMessageOf (FetchError (js ''connection refused'')))]\<rparr>,
      [js ''203.0.113.7'' \<mapsto> \<lparr>count_A = 42, timestamp = 1000\<rparr>],
      [airtableRequest_A sample_context (js ''appXXXXXXXXXXXXXX'') (js ''Clients'') None])
   \<and> onRequest_B sample_context [js ''203.0.113.7'' \<mapsto> \<lparr>windowStart = 1000, count_B = 41\<rparr>] =
     (Inr \<lparr>status = 502, headers = getCorsHeaders_B [] @ json_headers,
           body = JsonObject [(js ''error'', JString (js ''Failed to fetch from Airtable''))]\<rparr>,
      [js ''203.0.113.7'' \<mapsto> \<lparr>windowStart = 1000, count_B = 42\<rparr>],
      [airtableRequest_B sample_context (js ''applOjDjhH0RqLtBH/tblMptC862PyL7Znw'')])"
proof -
  let ?sA = "[js ''203.0.113.7'' \<mapsto> \<lparr>count_A = 41, timestamp = 1000\<rparr>]"
  let ?sB = "[js ''203.0.113.7'' \<mapsto> \<lparr>windowStart = 1000, count_B = 41\<rparr>]"
  let ?cA = "airtableRequest_A sample_context (js ''appXXXXXXXXXXXXXX'') (js ''Clients'') None"
  let ?cB = "airtableRequest_B sample_context (js ''applOjDjhH0RqLtBH/tblMptC862PyL7Znw'')"
  have limA: "checkRateLimit_A ?sA (js ''203.0.113.7'') 60000 =
      (\<lparr>allowed = True, remaining = 958, resetAt = None\<rparr>,
       [js ''203.0.113.7'' \<mapsto> \<lparr>count_A = 42, timestamp = 1000\<rparr>])"
    by (simp add: checkRateLimit_A_def RATE_LIMIT_def RATE_WINDOW_def)
  have limB: "checkRateLimit_B ?sB (js ''203.0.113.7'') 60000 =
      (True, [js ''203.0.113.7'' \<mapsto> \<lparr>windowStart = 1000, count_B = 42\<rparr>])"
    by (simp add: checkRateLimit_B_def RATE_LIMIT_def RATE_WINDOW_def)
  have pm: "pathMatch (pathname sample_request) = Some (js ''appXXXXXXXXXXXXXX/Clients'')"
    by (simp add: sample_request_def pathMatch_def startsWith_def line_terminator_def)
  have vA: "validatePath_A (js ''appXXXXXXXXXXXXXX/Clients'') =
      Valid_A (js ''appXXXXXXXXXXXXXX'') (js ''Clients'') None"
    by code_simp
  have enc: "encodeURIComponent (js ''Clients'') = Inr (js ''Clients'')"
    by code_simp
  have vB: "validatePath_B (map_of (searchParams sample_request) (js ''path'')) = Inr Valid_B"
    by code_simp
  have path: "map_of (searchParams sample_request) (js ''path'')
                = Some (js ''applOjDjhH0RqLtBH/tblMptC862PyL7Znw'')"
    by code_simp
  have meth: "req_method sample_request = js ''GET''"
    by (simp add: sample_request_def)
  have callsA: "snd (snd (onRequest_A sample_context ?sA)) = [?cA]"
    using limA pm vA enc meth
    by (simp add: onRequest_A_def sample_context_def sample_key_A Let_def)
  have callsB: "snd (snd (onRequest_B sample_context ?sB)) = [?cB]"
    using limB vB path meth
    by (simp add: onRequest_B_def sample_context_def sample_key_B Let_def)
  have hA: "?cA \<in> set (snd (snd (onRequest_A sample_context ?sA)))
       \<and> fetch sample_context ?cA = Rejected (js ''connection refused'')"
    using callsA by (simp add: sample_context_def)
  have hB: "?cB \<in> set (snd (snd (onRequest_B sample_context ?sB)))
       \<and> (fetch sample_context ?cB = Rejected (js ''connection refused'')
            \<or> (\<exists>u. fetch sample_context ?cB = Resolved u
                     \<and> upstream_text u = Inl (js ''connection refused'')))"
    using callsB by (simp add: sample_context_def)
  have org: "header sample_request (js ''Origin'') = None"
    by (simp add: sample_request_def)
  show ?thesis
    using limA limB org hA hB
      transport_failure_502
        [of ?cA sample_context ?sA "js ''connection refused''" ?cB ?sB "js ''connection refused''"]
    by (simp add: sample_context_def sample_key_A sample_key_B or_default_def)
qed

text \<open>
  C10 (path-segment variant). The upstream body is read with \<open>json()\<close> inside the \<open>try\<close>
  block. When the upstream answers, with whatever status, and its body is not JSON, the
  handler returns the 502 "Failed to fetch from Airtable" response; neither the upstream
  status nor the upstream body is relayed.
\<close>

theorem upstream_body_not_json_502:
  assumes "c \<in> set (snd (snd (onRequest_A ctx sA)))"
    and "fetch ctx c = Resolved u"
    and "upstream_json u = Inl m"
  shows "fst (onRequest_A ctx sA) =
           Inr \<lparr>status = 502, headers = json_headers @ getCorsHeaders_A (request ctx),
                 body = JsonObject [(js ''error'', JString (js ''Failed to fetch from Airtable'')),
                                    (js ''details'', JMessageOf (BodySyntaxError m))]\<rparr>"
  using onRequest_A_result [OF assms(1)] assms(2,3)
  by (simp add: relay_A_def failed_A_def error_A_def Response_def)

text \<open>The sample request against an upstream that answers 200 with an HTML page.\<close>

theorem upstream_body_not_json_502_witness:
  "fst (onRequest_A
          (sample_context\<lparr>fetch := (\<lambda>c. Resolved \<lparr>upstream_status = 200,
              upstream_text = Inr (js ''<html>ok</html>''),
              upstream_json = Inl (js ''Unexpected token <'')\<rparr>)\<rparr>)
          Map.empty) =
     Inr \<lparr>status = 502, headers = json_headers @ getCorsHeaders_A sample_request,
           body = JsonObject [(js ''error'', JString (js ''Failed to fetch from Airtable'')),
                              (js ''details'',
                                 JMessageOf (BodySyntaxError (js ''Unexpected token <'')))]\<rparr>"
proof -
  let ?u = "\<lparr>upstream_status = 200, upstream_text = Inr (js ''<html>ok</html>''),
              upstream_json = Inl (js ''Unexpected token <'')\<rparr> :: unit upstream_response"
  let ?ctx = "sample_context\<lparr>fetch := (\<lambda>c. Resolved ?u)\<rparr>"
  let ?c = "airtableRequest_A ?ctx (js ''appXXXXXXXXXXXXXX'') (js ''Clients'') None"
  have limA: "checkRateLimit_A Map.empty (js ''203.0.113.7'') 60000 =
      (\<lparr>allowed = True, remaining = 999, resetAt = None\<rparr>,
       [js ''203.0.113.7'' \<mapsto> \<lparr>count_A = 1, timestamp = 60000\<rparr>])"
    by (simp add: checkRateLimit_A_def RATE_LIMIT_def)
  have pm: "pathMatch (pathname sample_request) = Some (js ''appXXXXXXXXXXXXXX/Clients'')"
    by (simp add: sample_request_def pathMatch_def startsWith_def line_terminator_def)
  have vA: "validatePath_A (js ''appXXXXXXXXXXXXXX/Clients'') =
      Valid_A (js ''appXXXXXXXXXXXXXX'') (js ''Clients'') None"
    by code_simp
  have enc: "encodeURIComponent (js ''Clients'') = Inr (js ''Clients'')"
    by code_simp
  have meth: "req_method sample_request = js ''GET''"
    by (simp add: sample_request_def)
  have calls: "snd (snd (onRequest_A ?ctx Map.empty)) = [?c]"
    using limA pm vA enc meth
    by (simp add: onRequest_A_def sample_context_def sample_key_A Let_def)
  have h1: "?c \<in> set (snd (snd (onRequest_A ?ctx Map.empty)))"
    using calls by simp
  have h2: "fetch ?ctx ?c = Resolved ?u"
    by simp
  have h3: "upstream_json ?u = Inl (js ''Unexpected token <'')"
    by simp
  show ?thesis
    using upstream_body_not_json_502 [OF h1 h2 h3]
    by (simp add: sample_context_def)
qed

end
